theory Spec2Isabelle
  imports Complex_Main
begin

section \<open>The documentation indexing service (core/indexing/docs/DocsService.ts)\<close>

text \<open>
  The service keeps two stores in step: a relational table of indexed sites (SQLite) and
  one table of embedded chunks per embeddings provider (LanceDB). The embedding below
  follows the class \<open>DocsService\<close> method by method. The fields of the class and the two
  stores form the state record; every method takes the state and returns the new one.
  An exception is a value of type \<open>error\<close>, returned together with the state reached when
  it was raised, because what was written before the exception stays written.

  The collaborators that the class imports (the crawler, the chunker, the embeddings
  provider, the remote bundle store, the URL parser, the nearest-neighbour ranking of the
  vector store) are fields of the record \<open>Env\<close>, so every result holds for all of them.
  The crawler that crawl.ts of this repository defines is \<open>crawlPage_src\<close> below.

  An exception is a branch of the model where the class handles it itself (the \<open>try\<close>
  around chunking and embedding) and where the arguments and the modelled state decide it:
  \<^item> \<open>new URL(s)\<close> raises for a text that is no URL;
  \<^item> the relational table refuses a second row with the same \<open>startUrl\<close>;
  \<^item> the vector store refuses to open a table that does not exist, to create a table
    whose name has a character outside \<open>A-Z a-z 0-9 _ . -\<close>, to add a batch in which a
    row has no vector or a vector of another length than the table was created with, to
    search with a limit of 0 or with a vector of another length, and to read a filter
    text that ends inside a string literal.
  What the stores do in three further cases is not fixed here and is a field of \<open>Env\<close>:
  a table created from an empty vector, an empty batch, and a filter text with a single
  quote that is not of the refused form. A failing network or file system, and a
  collaborator that raises where the class has no \<open>try\<close> around the call, are not
  modelled.
\<close>

subsection \<open>Data\<close>

type_synonym vector = "rat list"

record SiteIndexingConfig =
  startUrl :: string
  title :: string
  maxDepth :: "nat option"
  faviconUrl :: "string option"

record Chunk =
  digest :: string
  filepath :: string
  startLine :: nat
  endLine :: nat
  chunk_index :: nat
  content :: string
  otherMetadata_title :: "string option"

text \<open>A row as \<open>addToLance\<close> builds it. The field \<open>vector\<close> is \<open>None\<close> where the source
  has \<open>undefined\<close> (an index beyond the end of the embeddings array).\<close>

record LanceDbDocsRow =
  row_title :: string
  starturl :: string
  row_content :: string
  path :: string
  startline :: nat
  endline :: nat
  vector :: "vector option"

text \<open>A table of the vector store: the length of the vector it was created with, which
  is the length of every vector in it, and its rows.\<close>

record LanceTable =
  dimension :: nat
  table_rows :: "LanceDbDocsRow list"

text \<open>A row of the relational table, each column as the text of the value that is stored
  (see \<open>stored_text\<close> below).\<close>

record SqliteDocsRow =
  doc_title :: string
  doc_startUrl :: string
  doc_favicon :: string

record AddParams =
  siteIndexingConfig :: SiteIndexingConfig
  params_chunks :: "Chunk list"
  params_embeddings :: "vector list"
  params_favicon :: string

record IndexingProgressUpdate =
  progress :: rat
  desc :: string
  status :: string

record EmbeddingsProvider =
  provider_id :: string
  maxChunkSize :: nat

record PageData =
  url :: string
  page_path :: string
  html :: string

record Article =
  subpath :: string
  article_text :: string

record SiteIndexingResults =
  bundle_url :: string
  bundle_title :: string
  bundle_chunks :: "(Chunk \<times> vector) list"

datatype error =
    SqliteUniqueConstraint string
  | LanceTableNotFound string
  | LanceInvalidTableName string
  | LanceInvalidData
  | LanceInvalidQuery
  | LanceInvalidFilter string
  | InvalidUrl string

text \<open>What the service does to the outside world, in order: popups of the IDE, messages
  to the webview, downloads from the bundle store and searches of a vector table.\<close>

datatype effect =
    ErrorPopup string
  | MessengerSend string
  | S3Download string string
  | LanceSearch string string nat

text \<open>
  The collaborators.
  \<^item> \<open>parseUrl s\<close> is \<open>new URL(s).toString()\<close>, \<open>None\<close> when \<open>new URL(s)\<close> raises.
  \<^item> \<open>crawlPage\<close> gives the pages that the crawler yields.
  \<^item> \<open>chunkArticle\<close> and \<open>embed\<close> return \<open>None\<close> when they raise.
  \<^item> \<open>downloadFromS3\<close> stands for
    \<open>JSON.parse (downloadFromS3 (bucket, getS3Filename (id, title)))\<close>.
  \<^item> \<open>nearest v rows\<close> is the rows of a table in the order of their distance to \<open>v\<close>.
  \<^item> \<open>lanceFilter\<close> is how the vector store reads a filter text that \<open>starturl_filter\<close>
    below does not decide: \<open>None\<close> if it refuses the text, else the rows that match.
  \<^item> \<open>lanceCreatesFromEmptyVector\<close> and \<open>lanceAddsEmptyBatch\<close> say whether the vector
    store accepts a first row with an empty vector and a batch of no rows.
  \<^item> \<open>sqliteNumeric s\<close> is the text of the value that the relational table stores for a
    text \<open>s\<close> that may be a number: the text of the number if \<open>s\<close> is a well-formed
    integer or real literal, and \<open>s\<close> itself if not.
\<close>

record Env =
  ideType :: string
  hasMessenger :: bool
  preIndexedDocs :: "string \<Rightarrow> SiteIndexingConfig option"
  preIndexedDocsEmbeddingsProvider :: EmbeddingsProvider
  parseUrl :: "string \<Rightarrow> string option"
  crawlPage :: "string \<Rightarrow> nat option \<Rightarrow> PageData list"
  pageToArticle :: "PageData \<Rightarrow> Article option"
  chunkArticle :: "Article \<Rightarrow> nat \<Rightarrow> Chunk list option"
  embed :: "string \<Rightarrow> string list \<Rightarrow> vector list option"
  downloadFromS3 :: "string \<Rightarrow> string \<Rightarrow> SiteIndexingResults"
  nearest :: "vector \<Rightarrow> LanceDbDocsRow list \<Rightarrow> LanceDbDocsRow list"
  lanceFilter :: "string \<Rightarrow> (LanceDbDocsRow \<Rightarrow> bool) option"
  lanceCreatesFromEmptyVector :: bool
  lanceAddsEmptyBatch :: bool
  sqliteNumeric :: "string \<Rightarrow> string"

text \<open>The state: the private fields of the class (\<open>docsIndexingQueue\<close>,
  \<open>lanceTableNamesSet\<close> in insertion order, \<open>config\<close>), the persisted global context
  (\<open>curEmbeddingsProviderId\<close>), the rows of the relational table, the vector tables by
  name, the \<open>docs\<close> entry of the file config.json, and the effects so far.\<close>

record DocsService =
  docsIndexingQueue :: "string set"
  lanceTableNamesSet :: "string list"
  config_docs :: "SiteIndexingConfig list option"
  config_embeddingsProvider :: EmbeddingsProvider
  curEmbeddingsProviderId :: "string option"
  sqliteDocs :: "SqliteDocsRow list"
  lanceTables :: "string \<rightharpoonup> LanceTable"
  configJsonDocs :: "SiteIndexingConfig list option"
  effects :: "effect list"

subsection \<open>Small helpers of the language\<close>

text \<open>\<open>xs[i]\<close> in JavaScript: \<open>undefined\<close> out of range.\<close>

fun js_index :: "'a list \<Rightarrow> nat \<Rightarrow> 'a option" where
  "js_index [] i = None"
| "js_index (x # xs) 0 = Some x"
| "js_index (x # xs) (Suc i) = js_index xs i"

text \<open>\<open>Set.add\<close> on a set kept in insertion order.\<close>

definition set_add :: "'a \<Rightarrow> 'a list \<Rightarrow> 'a list" where
  "set_add x xs = (if x \<in> set xs then xs else xs @ [x])"

text \<open>The decimal numeral that a template string prints for a non-negative integer.\<close>

fun string_of_nat :: "nat \<Rightarrow> string" where
  "string_of_nat n =
     (if n < 10 then [char_of (48 + n)]
      else string_of_nat (n div 10) @ [char_of (48 + n mod 10)])"

text \<open>Sequencing of two steps that may raise: the second runs only if the first did not.\<close>

definition and_then ::
  "('s \<Rightarrow> error option \<times> 's) \<Rightarrow> ('s \<Rightarrow> error option \<times> 's) \<Rightarrow> 's \<Rightarrow> error option \<times> 's" where
  "and_then f g st = (case f st of (None, st') \<Rightarrow> g st' | (Some e, st') \<Rightarrow> (Some e, st'))"

subsection \<open>Host and provider\<close>

definition isJetBrains :: "Env \<Rightarrow> bool" where
  "isJetBrains env = (ideType env = ''jetbrains'')"

definition isJetBrainsAndPreIndexedDocsProvider :: "Env \<Rightarrow> DocsService \<Rightarrow> bool" where
  "isJetBrainsAndPreIndexedDocsProvider env st =
     (let isPreIndexedDocsProvider =
            (provider_id (config_embeddingsProvider st) =
             provider_id (preIndexedDocsEmbeddingsProvider env))
      in isJetBrains env \<and> isPreIndexedDocsProvider)"

definition canUsePreindexedDocs :: "Env \<Rightarrow> bool" where
  "canUsePreindexedDocs env = (\<not> isJetBrains env)"

definition getEmbeddingsProvider :: "Env \<Rightarrow> bool \<Rightarrow> DocsService \<Rightarrow> EmbeddingsProvider" where
  "getEmbeddingsProvider env isPreIndexedDoc st =
     (if isPreIndexedDoc \<and> canUsePreindexedDocs env then preIndexedDocsEmbeddingsProvider env
      else config_embeddingsProvider st)"

definition isPreIndexedDoc :: "Env \<Rightarrow> string \<Rightarrow> bool" where
  "isPreIndexedDoc env u = (preIndexedDocs env u \<noteq> None)"

subsection \<open>The relational table\<close>

text \<open>
  The columns \<open>title\<close>, \<open>startUrl\<close> and \<open>favicon\<close> are declared \<open>STRING\<close>, which gives
  them NUMERIC affinity: a text that is a well-formed number is stored as that number, and
  a text that is compared with the column is converted in the same way. A text whose
  first character after leading white space is none of \<open>+ - . 0 1 ... 9\<close> is no number
  and is stored as it is; for any other text, \<open>sqliteNumeric\<close> gives what is stored.
\<close>

definition sqlite_space :: "char \<Rightarrow> bool" where
  "sqlite_space c = (c \<in> set [CHR '' '', CHR 0x09, CHR 0x0A, CHR 0x0B, CHR 0x0C, CHR 0x0D])"

definition starts_like_number :: "string \<Rightarrow> bool" where
  "starts_like_number s =
     (case dropWhile sqlite_space s of
        [] \<Rightarrow> False
      | c # cs \<Rightarrow> c \<in> set ''+-.0123456789'')"

definition stored_text :: "Env \<Rightarrow> string \<Rightarrow> string" where
  "stored_text env s = (if starts_like_number s then sqliteNumeric env s else s)"

definition has :: "Env \<Rightarrow> DocsService \<Rightarrow> string \<Rightarrow> bool" where
  "has env st u = (find (\<lambda>r. doc_startUrl r = stored_text env u) (sqliteDocs st) \<noteq> None)"

definition list_docs :: "DocsService \<Rightarrow> SqliteDocsRow list" where
  "list_docs st = sqliteDocs st"

definition hasIndexedDoc :: "Env \<Rightarrow> DocsService \<Rightarrow> string \<Rightarrow> bool" where
  "hasIndexedDoc env st u =
     (0 < length (filter (\<lambda>r. doc_startUrl r = stored_text env u) (sqliteDocs st)))"

definition addToSqlite :: "Env \<Rightarrow> AddParams \<Rightarrow> DocsService \<Rightarrow> error option \<times> DocsService" where
  "addToSqlite env params st =
     (let c = siteIndexingConfig params in
      if list_ex (\<lambda>r. doc_startUrl r = stored_text env (startUrl c)) (sqliteDocs st)
      then (Some (SqliteUniqueConstraint (startUrl c)), st)
      else (None, st\<lparr>sqliteDocs := sqliteDocs st @
              [\<lparr>doc_title = stored_text env (title c),
                doc_startUrl = stored_text env (startUrl c),
                doc_favicon = stored_text env (params_favicon params)\<rparr>]\<rparr>))"

definition deleteFromSqlite :: "Env \<Rightarrow> string \<Rightarrow> DocsService \<Rightarrow> error option \<times> DocsService" where
  "deleteFromSqlite env u st =
     (None, st\<lparr>sqliteDocs := filter (\<lambda>r. doc_startUrl r \<noteq> stored_text env u) (sqliteDocs st)\<rparr>)"

subsection \<open>The vector tables\<close>

definition removeInvalidLanceTableNameChars :: "string \<Rightarrow> string" where
  "removeInvalidLanceTableNameChars tableName = filter (\<lambda>c. c \<noteq> CHR '':'') tableName"

definition getLanceTableNameFromEmbeddingsProvider :: "Env \<Rightarrow> bool \<Rightarrow> DocsService \<Rightarrow> string" where
  "getLanceTableNameFromEmbeddingsProvider env isPre st =
     (let embeddingsProvider = getEmbeddingsProvider env isPre st;
          embeddingsProviderId = removeInvalidLanceTableNameChars (provider_id embeddingsProvider)
      in ''docs'' @ embeddingsProviderId)"

text \<open>The names that the vector store accepts for a new table.\<close>

definition alphanumeric :: "char \<Rightarrow> bool" where
  "alphanumeric c =
     (c \<in> set ''ABCDEFGHIJKLMNOPQRSTUVWXYZabcdefghijklmnopqrstuvwxyz0123456789'')"

definition valid_table_name :: "string \<Rightarrow> bool" where
  "valid_table_name n = list_all (\<lambda>c. alphanumeric c \<or> c \<in> set ''_.-'') n"

text \<open>
  The filter text \<open>starturl = '${startUrl}'\<close>, as the vector store reads it. The value is
  pasted between the quotes as it is. If it has no single quote and no backslash, the
  text is the comparison of the column with the value. If it has exactly one single quote
  and otherwise letters, digits and spaces only, the text has three single quotes and
  nothing that could hide one, so it ends inside a string literal and is refused. Any
  other text is left to \<open>lanceFilter\<close>.
\<close>

definition single_quote :: char where
  "single_quote = CHR 0x27"

definition plain_text :: "string \<Rightarrow> bool" where
  "plain_text u = list_all (\<lambda>c. c \<noteq> single_quote \<and> c \<noteq> CHR 0x5C) u"

definition unterminated_literal :: "string \<Rightarrow> bool" where
  "unterminated_literal u =
     (length (filter (\<lambda>c. c = single_quote) u) = 1 \<and>
      list_all (\<lambda>c. c = single_quote \<or> c = CHR '' '' \<or> alphanumeric c) u)"

definition starturl_filter :: "Env \<Rightarrow> string \<Rightarrow> (LanceDbDocsRow \<Rightarrow> bool) option" where
  "starturl_filter env u =
     (if plain_text u then Some (\<lambda>r. starturl r = u)
      else if unterminated_literal u then None
      else lanceFilter env (''starturl = '' @ [single_quote] @ u @ [single_quote]))"

text \<open>The table is created from one mock row, which fixes the length of its vectors and
  is deleted again by its title (a filter text without a quote in the value).\<close>

definition createLanceDocsTable ::
  "Env \<Rightarrow> vector \<Rightarrow> string \<Rightarrow> DocsService \<Rightarrow> error option \<times> DocsService" where
  "createLanceDocsTable env initializationVector tableName st =
     (let mockRowTitle = ''mockRowTitle'';
          mockRow = [\<lparr>row_title = mockRowTitle, starturl = '''', row_content = '''', path = '''',
                      startline = 0, endline = 0, vector = Some initializationVector\<rparr>]
      in if \<not> valid_table_name tableName then (Some (LanceInvalidTableName tableName), st)
         else if initializationVector = [] \<and> \<not> lanceCreatesFromEmptyVector env
         then (Some LanceInvalidData, st)
         else (None, st\<lparr>lanceTables := (lanceTables st)(tableName \<mapsto>
                  \<lparr>dimension = length initializationVector,
                   table_rows = filter (\<lambda>r. row_title r \<noteq> mockRowTitle) mockRow\<rparr>)\<rparr>))"

text \<open>Returns the name of the opened table. Opening a table that does not exist raises;
  the name is tracked only after the table was opened.\<close>

definition open_tracked :: "string \<Rightarrow> DocsService \<Rightarrow> (error + string) \<times> DocsService" where
  "open_tracked tableName st =
     (case lanceTables st tableName of
        None \<Rightarrow> (Inl (LanceTableNotFound tableName), st)
      | Some t \<Rightarrow>
          (Inr tableName, st\<lparr>lanceTableNamesSet := set_add tableName (lanceTableNamesSet st)\<rparr>))"

definition getOrCreateLanceTable ::
  "Env \<Rightarrow> vector option \<Rightarrow> bool \<Rightarrow> DocsService \<Rightarrow> (error + string) \<times> DocsService" where
  "getOrCreateLanceTable env initializationVector isPre st =
     (let tableNameFromEmbeddingsProvider = getLanceTableNameFromEmbeddingsProvider env isPre st
      in if lanceTables st tableNameFromEmbeddingsProvider = None
         then (case initializationVector of
                 Some v \<Rightarrow>
                   (case createLanceDocsTable env v tableNameFromEmbeddingsProvider st of
                      (Some e, st1) \<Rightarrow> (Inl e, st1)
                    | (None, st1) \<Rightarrow> open_tracked tableNameFromEmbeddingsProvider st1)
               | None \<Rightarrow> open_tracked tableNameFromEmbeddingsProvider st)
         else open_tracked tableNameFromEmbeddingsProvider st)"

text \<open>\<open>chunk.otherMetadata?.title || siteIndexingConfig.title\<close>: an empty title is falsy.\<close>

definition row_of_chunk :: "SiteIndexingConfig \<Rightarrow> vector list \<Rightarrow> nat \<times> Chunk \<Rightarrow> LanceDbDocsRow" where
  "row_of_chunk c embs ic =
     (case ic of (i, chunk) \<Rightarrow>
        \<lparr>row_title = (case otherMetadata_title chunk of
                        Some t \<Rightarrow> if t \<noteq> [] then t else title c
                      | None \<Rightarrow> title c),
         starturl = startUrl c,
         row_content = content chunk,
         path = filepath chunk,
         startline = startLine chunk,
         endline = endLine chunk,
         vector = js_index embs i\<rparr>)"

text \<open>\<open>table.add(rows)\<close> adds all rows or none. It refuses a batch in which a row has no
  vector or a vector of another length than the table has.\<close>

definition batch_refused :: "Env \<Rightarrow> LanceTable \<Rightarrow> LanceDbDocsRow list \<Rightarrow> bool" where
  "batch_refused env t rows =
     ((rows = [] \<and> \<not> lanceAddsEmptyBatch env) \<or>
      list_ex (\<lambda>r. case vector r of None \<Rightarrow> True | Some v \<Rightarrow> length v \<noteq> dimension t) rows)"

definition table_add :: "Env \<Rightarrow> string \<Rightarrow> LanceDbDocsRow list \<Rightarrow> DocsService \<Rightarrow> error option \<times> DocsService" where
  "table_add env table rows st =
     (case lanceTables st table of
        None \<Rightarrow> (Some (LanceTableNotFound table), st)
      | Some t \<Rightarrow>
          if batch_refused env t rows then (Some LanceInvalidData, st)
          else (None, st\<lparr>lanceTables := (lanceTables st)(table \<mapsto>
                  t\<lparr>table_rows := table_rows t @ rows\<rparr>)\<rparr>))"

definition addToLance :: "Env \<Rightarrow> AddParams \<Rightarrow> DocsService \<Rightarrow> error option \<times> DocsService" where
  "addToLance env params st =
     (let sampleVector = js_index (params_embeddings params) 0;
          isPre = isPreIndexedDoc env (startUrl (siteIndexingConfig params))
      in case getOrCreateLanceTable env sampleVector isPre st of
           (Inl e, st1) \<Rightarrow> (Some e, st1)
         | (Inr table, st1) \<Rightarrow>
             (let rows = map (row_of_chunk (siteIndexingConfig params) (params_embeddings params))
                             (enumerate 0 (params_chunks params))
              in table_add env table rows st1))"

text \<open>\<open>table.delete(filter)\<close> removes the rows that match the filter.\<close>

fun deleteFromLance_loop ::
  "Env \<Rightarrow> string \<Rightarrow> string list \<Rightarrow> DocsService \<Rightarrow> error option \<times> DocsService" where
  "deleteFromLance_loop env u [] st = (None, st)"
| "deleteFromLance_loop env u (tableName # rest) st =
     (case lanceTables st tableName of
        None \<Rightarrow> (Some (LanceTableNotFound tableName), st)
      | Some t \<Rightarrow>
          (case starturl_filter env u of
             None \<Rightarrow> (Some (LanceInvalidFilter u), st)
           | Some matches \<Rightarrow>
               deleteFromLance_loop env u rest
                 (st\<lparr>lanceTables := (lanceTables st)(tableName \<mapsto>
                        t\<lparr>table_rows := filter (\<lambda>r. \<not> matches r) (table_rows t)\<rparr>)\<rparr>)))"

definition deleteFromLance :: "Env \<Rightarrow> string \<Rightarrow> DocsService \<Rightarrow> error option \<times> DocsService" where
  "deleteFromLance env u st = deleteFromLance_loop env u (lanceTableNamesSet st) st"

subsection \<open>The file config.json\<close>

definition addToConfig :: "AddParams \<Rightarrow> DocsService \<Rightarrow> DocsService" where
  "addToConfig params st =
     (let c = siteIndexingConfig params;
          doesDocExist = (case config_docs st of
                            None \<Rightarrow> False
                          | Some ds \<Rightarrow> list_ex (\<lambda>d. startUrl d = startUrl c) ds)
      in if \<not> doesDocExist
         then st\<lparr>configJsonDocs :=
                   Some ((case configJsonDocs st of None \<Rightarrow> [] | Some ds \<Rightarrow> ds) @ [c])\<rparr>
         else st)"

definition deleteFromConfig :: "string \<Rightarrow> DocsService \<Rightarrow> DocsService" where
  "deleteFromConfig u st =
     st\<lparr>configJsonDocs :=
          Some (case configJsonDocs st of
                  None \<Rightarrow> []
                | Some ds \<Rightarrow> filter (\<lambda>d. startUrl d \<noteq> u) ds)\<rparr>"

subsection \<open>Adding and deleting a site\<close>

definition messenger_send :: "Env \<Rightarrow> string \<Rightarrow> DocsService \<Rightarrow> DocsService" where
  "messenger_send env m st =
     (if hasMessenger env then st\<lparr>effects := effects st @ [MessengerSend m]\<rparr> else st)"

definition add :: "Env \<Rightarrow> AddParams \<Rightarrow> DocsService \<Rightarrow> error option \<times> DocsService" where
  "add env params =
     and_then (addToLance env params)
    (and_then (addToSqlite env params)
       (\<lambda>st. (None, if \<not> isPreIndexedDoc env (startUrl (siteIndexingConfig params))
                     then addToConfig params st else st)))"

definition delete :: "Env \<Rightarrow> string \<Rightarrow> DocsService \<Rightarrow> error option \<times> DocsService" where
  "delete env u =
     and_then (deleteFromLance env u)
    (and_then (deleteFromSqlite env u)
       (\<lambda>st. (None, messenger_send env ''refreshSubmenuItems'' (deleteFromConfig u st))))"

text \<open>The data URI that \<open>fetchFavicon\<close> returns, written in pieces of 64 characters.\<close>

definition favicon_data :: string where
  "favicon_data =
     ''data:image/x-icon;base64,AAABAAEAAAAAAAEAIAA8GgAAFgAAAIlQTkcNCho'' @
     ''KAAAADUlIRFIAAAEAAAABAAgGAAAAXHKoZgAAGgNJREFUeNrt3XuMXNdh3/HvuTO'' @
     ''zLz6WVPWynMRuEqmKa9du0EcaxwGSuGriBinQP9oGBdKiQIKirzRFi9ZFgTZBCxu'' @
     ''pizhtbMcyZVux9aZeJEWLEinRIimRlESKFMnlvp+zszuzs/Oee+/ce8/pH7OSLYk'' @
     ''id7nv3d8H0F+Sltz7+M6de8491zjnHCKyLXnaBCIKgIgoACKiAIiIAiAiCoCIKAA'' @
     ''iogCIiAIgIgqAiCgAIqIAiIgCICIKgIgoACKiAIiIAiAiCoCIKAAiogCIiAIgIgq'' @
     ''AiCgAIqIAiIgCICIKgIgoACKiAIiIAiAiCoCIKAAiogCIiAIgIgqAiCgAIqIAiIg'' @
     ''CIKIAiIgCICIKgIgoACKiAIiIAiAiCoCIKAAiogCIiAIgIgqAiCgAIqIAiIgCICI'' @
     ''KgIgoACKiAIiIAiAiCoCIKAAiogDIhuJc+x9RAGQbms3WKcw2tCEUANlujr8xzYN'' @
     ''fv8jbR7OgqwAFQLYHBwxOVNi3f5AnD44w8nIOd6miDaMAyHY4+euNiG893M/hE9N'' @
     ''MBBFzl+aZP5zF+rE2kAIgW1kUJhw+OcVfPDNEqRzQ7E0xXfTJn5yl/mZRG0gBkK0'' @
     ''qiS1XBub5X39+gWIrgk6PGjDd4zE/WaO4f4KkEel+gAIgW9HwZJWvfPciQ8MVYgd'' @
     ''4BoA4Bc18RP3oPNUzBWxktbEUANlKxrJVvrP/Ks8cmSJIG0iZd/+dj8PfbTAmovD'' @
     ''YGPFcAFaXAQqAbAmFeZ+nXhznm8+M0EiDe98RMW8s0xmLqyY0np+ndGSGpJlowyk'' @
     ''AstnFieXAiSn+5JGrlCohpM0H/puicUzjMBmwqYTS4SzBeB2X6CpAAZBN7ejpaR5'' @
     ''4coCpyRp0XPtQyBrLkLF4KQMd4PdVKB2bJi6H2oAKgGxWw1NVHjowzJm3CtCZeve'' @
     ''m3/tFOArGEgM4sEFM6eAU/kBV9wIUANmMiuWA7zzWz0uvTmOtu+al/48YYgM14zA'' @
     ''GSBvCqw1Kh6YJJ/WcgAIgm0q9GfHEC6M8emCU6bwP3akbju0HxlHyLO9mIm2Ye2S'' @
     ''c6qk5nB4XVABkc/CDmBNvzPB/HrzMcLkJu9KLmtgTGkfV+9H4v+k0JLMxlRdzNC6'' @
     ''VtGEVANnootjSN1Lmy/suMDnT+NDv/NcMx8J9gB+X+miayqlZKkdnNDlIAZCNLl/'' @
     ''0+eMHLnD+SonQ8p7JPjdSN5A17r0XCx7YwFI7PUf1dF4bWAGQjWqu5PPYc0O8eDx'' @
     ''HPbZL+vQHqGPJmoT3f857XR6NC2XKh6aJ5jUsqADIhtMMYo6dzPLNv+hnPoxxKQN'' @
     ''LO/+pGBjzrnGzIGWwzZj62Tkqx6a1sRUA2UiSxHL8jRz/9/F+BrJ16PKWfPIDOBx'' @
     ''l42ga997/3YHX6RFO+5SezxFONbSIoAIgG+Lkt47XL8/xwNODvHpuFnrTN//DDLS'' @
     ''MY9pLcLyvIWmDa1maFyrMH5rCxQqAAiDrbjxb48GnB3n+lSxkUsv7Yc4Q4JhaCMB'' @
     ''7/x2YtCEqhswfmKaVC3CaIagAyPppBjEHjo5x7GSWZiO+wUy/xUkwND/s9kHKQAq'' @
     ''ibJPiU5PYmpYPUwBkXUSx5YkfDPHtxwcZnGpAT2pFfm7LQD5liD6kJSZtSGoRs/9'' @
     ''7kGioDnpaUAGQtRXHltMXZvn6g/1cmqy1p/muEB/LABFN3IdPHkyB7UzIPTlMOOt'' @
     ''rhygAslasdUzmG3z5O5e4OFHBpVZ27zaBQSzXXQokZSADlR/MUj2dJ6lH2jEKgKy'' @
     ''FWqXF/Y/1cep8nsBayKz8rm0a8E378/96dxXiYovyC9OEE3XtGAVAVv3kr7d4+ug'' @
     ''ojxwYpdaMIbU6u9V6jqJnue7MfwOmw1B/cY7qKwXiSks7SAGQ1RKEMT98PcefPdL'' @
     ''HRMHHeuamJvssRoxj0kuIcdf/I9KGeD6idCRH4209LagAyKqwzvHG2wW++dhV3uw'' @
     ''r425ypt+iA+AME8aSYG74x3h3pmleLlM9kSeaD7SzFABZaYNjFR46OMKhl6ZgR2r'' @
     ''V/7zEQMk44sUsIuDAtSyVl2cpvzSrnaUAyEoqlAIefm6YJ46Oruhw3/XYhWcCAuM'' @
     ''W9YIg0+3RPFOh8lSOloYFFQBZOQeOjfLkkTGKlXhV7vhfOwBQMZai50gWc/A48Ho'' @
     ''9mhMV5g9PaacpALIiJ//LYzy4f4irIzXoXLtdGAPDxlHFYhf5kkDT49EaaVJ6OEv'' @
     ''9wrxWElYA5GY55zh3ZY5vPjbA2f4SSdqs6k2/D/z5tOcBNA3Yxf65BkhBMFVn/vA'' @
     ''kiR/rBaMKgCyVdY5coclXH+7jlbcKhNZCxqzL32XOS4gWe/C49lVA4sdUD+ZpnC/'' @
     ''hYq0hqADIkoRBwkPPDfPs8Unqwdp9738/C0x6lgAwbpEBWvirtiZ95vZPEBVDXQU'' @
     ''oALLok7+VcPxsjm881k+9Hi1pQc+V5oBJY/FvNBnoff+T6TK4HkvlpRmqZwrtrwK'' @
     ''iAMj1JdbxxqUC//Mb55icbq7qTL/FsMCEsTTMTXyEO4NtJhS+P0prqqmdqwDIjVw'' @
     ''eLHL/o1c4c36eOGPWfY9ZYNw4isYRLzUCHmCgcWSe2mtzJFU9J6AAyIeayNV59Pl'' @
     ''RHjk2SbIjta6f/D/OGZg3lhDHkqcgecAeyD86QqOvop2sAMi1BGHCoy+O8mdPDBB'' @
     ''FdsPtqZrnCG8mSAZMl4f/apXa8QKtgp4TUADkA544MsJ39g9QK7fW7Y7/9dSNJcb'' @
     ''huZuogAdmt6F0ZJr660XtbAVAftxrb83w8LNDXB2uQodH+73cG0vWOGrLuCVhdno'' @
     ''Eo3XKL+VoDlW10xUAARiZqHD/Q1d57cJce7jP23gnP8C4l1A29uZvSzjAOGqvFag'' @
     ''cn8GGiXa+ArB9OQfFcsADzwxy+NQ0FT9e03n+SzVlLFXcsg4g0+HRmvKpvpKneaW'' @
     ''sg0AB2L5qzYgDxyd44MAI+WbUfsR3A8+Wm/ccZQPL/dw2nsG/UqF0NKerAAVgewr'' @
     ''ChNcu5PnD+y+Sn2tumr0y71nqnmU5qxGYTo94rkX1eJ7qmbzeLagAbD9DE1X+65+'' @
     ''+yfRME+dt3O/971fyLFXjlj09wXR6BINVZr8+hA31oJACsJ1O/vEKX/v+JS4PlIl'' @
     ''g05z8OEMJS/1mhwLfdxTauiU4X6f88iyupQgoANtAuRZy5IdTPP7MGKFzm25vvPu'' @
     ''eALPMy3YHXo9HnLTIf3cYW2zpaUEFYGtrRQkHj0/y/x7vZ761Mi/wXGtzxlFa5Pq'' @
     ''AN5QxOOPaNwRfmsE29bSgArCFnXx9hgee7Kd/uLQmK/quhhFjmVipALj2iIANEvL'' @
     ''fGsUfrGn5MAVga+obmGff/n5OnS9AV3rT/h41Yykah1upp5RMuwSN8yVKL2SJ5kI'' @
     ''dLArA1jJX8vnqQ5c5dCJL7FjXxT1W4oSNcbRWLgHgGbxbPYrPTVF/W8uHKQBbiB/'' @
     ''EfO/pAV48laMWJO15/ptc0bPklzkX4D0MkDFE4z6l57P4IzUdOArA5he2Ek5fyPO'' @
     ''t7w0yOt3Y0NN8F80ZysZSNJaUW9krGdPlUTowRf2snhZUADa5OHEMjFf4d18+S3+'' @
     ''5CV2b86bftdQ8Q3mV5i5Y31J/rUjzkhYOWS2b9w7UJpIv+Pz3r73FwHgVa9zmmey'' @
     ''zCC0cTSyJWfk79l5XitKzOTpu7aHrZ3fibaFwbhS6AlhlhXmf7z59lWMnp4nc1jr'' @
     ''5ASpY5kzCqozap8CGEdU38lRP53UwKQCbS7Xe4vAPJ/j2k0NUw7g9z3+LKRjHuLG'' @
     ''Eq7FYsQNvTwr/apX5/VmiopYPUwA2iTixvPJ6jvsfG2A421hY2WcL/p5A0UCwzLU'' @
     ''BPlTaYKsx9dNFSsdzuEjDggrAJnDm7Tn2PTnIq2/k2zP9tuDJ/47IOOpmlU5MB15'' @
     ''viqjsU3oqS5hr4jRDUAHYyMayNb7++FWefXkCdm79G1c148h5dvlPBX6YjME2HP6'' @
     ''ZCuVjOdAjwwrARtUKE777ZD8vnZqClAfprb+JqwamV3NGowOv1yN2EYV9I0STTUh'' @
     ''0FaAAbDBJ4nj48BBPvTjBTDHcEjP9FqOBJc/qP71nDESlFtOPDBFV9FYhBWADiRP'' @
     ''LiTdz3P/oAFcmatvm5If2XIAKtr02wGpKG1yYUHpwGv9SRTcEFYCNIbGOsWydLz1'' @
     ''wiXNDZRLDlhvvv56qaT8aXFrOMuFLOGITv0XxwDitvK+DTwFYf5VyyP+4/wLH35g'' @
     ''hTOymXNxjORxQNu2bgbDKAx4pg9lpKD8zQ/10ERto4RAFYB3Vai2eenGUR58boRX'' @
     ''bzf147zIkxlEzdm1W8vIMcSmieHCKZr/eKqQArJMwjDl+Zpo//d7l9gL56a052Wc'' @
     ''xWgbyqTW6M2/Auz1F7XiB2ok5klqkg1EBWFvOOV6/VOD+J65yqb9KkjHb9uSH9gK'' @
     ''h497C2bkmOwBsMaZ6LE/9QkkHpAKwtq6OlvnewWEOncjB7vS2PvkB6lgGTQu7hsv'' @
     ''5enelqV0sUH5hmlZezwkoAGukXGvxnYPD7Ds4DNv8k/8dATBqHGv6ci8DxFB9tUD'' @
     ''5eE47QQFYG9/e38/DB4awLbctZvotVgjMefbdc3NNGtDtEVyoUd6fwx/RDUEFYJU'' @
     ''denmM/UdGyc76W/YJv5uVGCgau/ZXAR3QHCwz/3xWLxRRAFaHc/BWX4FvPdzPWwN'' @
     ''lyOjk/0AAcBSNXdP7ADjwdqaICyHVA7M0rpb1tKACsNInvyM72+BrD13l+PkCfrT'' @
     ''9JvsshgXqxmHX+raIBxgIhmvMPTYGTb1mXAFYQfOVkMefH2H/0QmqUdxe0VcfMh8'' @
     ''QA7PeGn8FgPZbhXZ6JC6hcmSG5qWSnhNQAFZGw485dnqarz/aRy2M9Ml/Hb5xnPc'' @
     ''s6/I+H9d+WjCuRszsHyMq6q1CCsAyWed4u7/IVx64yPisT+J57aNMrqkFXPYSgpV'' @
     ''8U9BSpAwuSqj+YIbamQJJQ88JKADL8NaVOb7ywEXeGqgQexrvXwy3cA9g/b4hLbx'' @
     ''g9OERWtNN7RAF4OaMT9d44tAoz72QJUrp5F8sC8waS7xeB5cHpA3+hSqVE7NE8/o'' @
     ''qoAAsUb0Z8cThMb719BBBh7bSUgOQ9RJCs453SQ24xDF7/zDNt/VWIQVgCcIo4fu'' @
     ''HR9j37CDFig9d2kRL4YAZbx2vAN6RgtZEg+rJPK0ZLRyiACzSyTdyPHRwiP7RCnS'' @
     ''nNdy3RBaYN45wA2w4052i/MI01ZMF0OQgBeBGBsbKfPfpQS72l9pz/LfRsl4rxQF'' @
     ''5Y2madgzWNQAdhmCgRuWVGfwxvWZcAfiwg9ZBsRzwjYf7eP5Ujmoj1nj/TUqAUWM'' @
     ''pL6wOtK5b0bVfM14/W6T8Qg4baYagAnAN9WbEs0fHefzgGHOVVnumn9wUC0waR8k'' @
     ''47HoHgHYAwr4m5Wdy1C/MawcpAO/VihLOXyny3770JtPNlm76rchZ1w6B2wgXUQ6'' @
     ''8vR7+VI3SoSy2pSnCCsCPGR2r8sU/OUshboFeP79CAXCMp2Kq2A1xgJkujyQfUTs'' @
     ''8R/VEAae3CikAAOPZGn/++BXO95WJU0Y3/VaIc4aCcQSG1Xtf4FIjsMsjLDUpfH8'' @
     ''YqpFGd7Z7AGbmGjx+eJhHDo/jO6eTf4WVjCNk40ygNB0GZxOalyvMv5LDtnRDcNs'' @
     ''GIIwSjpzIsm//ILPlUHf8V0HeWCrGtt+StFEikPKIyxH5b44RzQa6CgDS2+0XbsW'' @
     ''WQ4fG+Ma+KwwMlKE3A7E+DVaSA8adZdYmtKIUZqNMwjHgQkfj7DzF56a47R9/nMw'' @
     ''tnQrAdhJFCW9eKDKcDej++C34kQOz8BXAvHP4ynKVnKFiujBxhs7IbYwRAQzOtfd'' @
     ''3/c059t53lwKw3X7hHR1p/sk//wS3/K27ODXS5GI+pOYnNBNHI7a8u7KELF+nR3f'' @
     ''Go9czbIhrLAfOWpxL2PmZW8ns3d4nP4Bxzm27jzzrwCaOhh8zMNPgxf4Gb43XeS0'' @
     ''XUgosoXXtt92v+1S2ze1fdnj8bqfHRz0IN8JRZh0m49F19y72/sZdpHdntv3+3ZY'' @
     ''BeIdzEFtHGFnC2HE1H3C8r8pjV6pcngkwkcV5Bqu5QTflN9OGf9vp8dfTBn+djzJ'' @
     ''nHV7Go/uv7GbvF+4itUNvc9r2AXi/VuKo+gklP+HKjM8Pr1b54VCdc9MBxLb9gFB'' @
     ''ai4Ms1mc8w3/q8rgvY2iu41HmEofX4dH9iV72fP5O0r0Z7RwF4AYxiB3TlRYzlYj'' @
     ''JUsTrY3XOjjc4PeUTBnZh5RnA0+XBh+kA/qjb4/c6PGrrdJS52OLtSLPjk3vY9Qu'' @
     ''3krlN3/sVgJswMR8ynA85P1Hn8rRP30xAXyGkHLj2FUEKSCkG7z374D92e/yHTo9'' @
     ''oHY4ylzi8nhQ7Pr2XXX/zL+nkv4ZtNwpws37qlk5+6pZOfumnexgvhvTlAs5nA87'' @
     ''lAkbyAW8XAogSMB5oDcE2A43EUU0cPZ5Z0wFWl7S/8+/45B6d/NfbRboCuHlR4hj'' @
     ''OB5wZa3BwqE6x3CI732KsHBFFtj23wDPb+omL30kbfr/D4470Gg4FLtzt7/lEL7s'' @
     ''/dzuZ23XyKwBrYLQYcvRShUOXK/TnQ+qhpRJb6pFtDyluw6XF/2HG8AedHvekDMF'' @
     ''aHGkOTIdH99272HPfnaT3dOjAVADWhnPtl4kYY+ib8TnZX+WVoTovjTYI/IQQCBb'' @
     ''+u/bW3/rb5NdSht/v9PiFzBoMBTqH6UzR84le9vzqHaR2626/ArBOEutoJY44dhR'' @
     ''qMUf6KpwcqnF0rEmpFuOcJfEMbovPOvzLBv5Np8fvdHqrOhToEofXlaLnk73s+ZU'' @
     ''7Se3SOL8CsEE4B9UgoR4mjM40OTfR4NXhOq9OBUzWk/byOZmte7T+XofHl7o96qt'' @
     ''0pL07zv9zu9nzdz+iGX5LoFGANWAM9Han6O1OcefOND/30R38+qduYWi+xbmJJqe'' @
     ''Gazw/0oDAtocT097WOYBd+2vPav06Lm6f/D2f6qX3l+/QJJ+lHpu6Alg/1kGhFjE'' @
     ''yF3IxHzJZCDk/0eD4eINmLW7fNEyb9rDiJvbbHR5/3OWt+DLhLnaYDsOOT+9l92d'' @
     ''vI3Or7vYrAJvYfCPmctbnzFSTt6d8xvIBg+UWuWoMiWtfr23CyUZfyBj+qCvFnYY'' @
     ''VGwp0icPrbn/n3/23byVzR5cOIAVg65ipRFyYaHAu63Mm6zNdCMjWIqabSfssMrT'' @
     ''nF2yCm4i/lDJ8scvjb6RXaCjQOkxXih1/bWF6rz75FYCtrNmIOTXe4ORQnZdG68y'' @
     ''UWpSbMZXI/WiK7QZe0/DnPcMfdBo+3+HRWu7R5hwm7dHz6b30fu420ns1zq8AbAM'' @
     ''OsNYxU/Q5P9HkxGCdVyZ9hsoRfpDQWFjLBMOGu4H4swZ+t8Pjtzu95U0HXjj5u+7'' @
     ''exd5fv4v0Ht3wUwC2GesciW3PM8hVI86NNzh8ucITl6skgSU2EJmNtbDZHQb+acb'' @
     ''j33ctIwDvLOZxzy5u+c2PkurROL8CsO1jAEFkaYSWuWbM1VzAS30VHu+vkS+22hM'' @
     ''Q0t6GeBbhvrThgZ7UTY0EvDvOf+/COH+vxvkVAPmAZssyV4/bVwYTDd4cbXBqssn'' @
     ''VQggt255slF6fGnw2bfh2T4pOlnbu/mgxj930fu52Mrfrbr8CIDdU9RNy5Rb9eZ8'' @
     ''LWZ+h2ZBXh2sM1RKI3cKCJmbNRhF+PmX4SneKe7yF9wYu9uTPePR8ag+7f1FDfQq'' @
     ''ALJ1zlOsRk5WYtyYanJ0OmMgHDOV9hksRYcTCYiar+2q0uz3Df+70+I0OQ+JuHAC'' @
     ''XOIxHezGPX7yNjjt18q8GTQXe6oxhz64O9uzq4FM/0cPfq8WMF3wuTzU5M+lzZTZ'' @
     ''kZD5kqtJq3z1Mm1V5bDlwjhnrcIv5we8s4Hnvbnb9nVt18q/m4aErgO2rGiT0Tfs'' @
     ''cG6zx/FCDerlFwU/I+jEuXjgsVigGdxr4ZxmPf73w+nV3nZPfLJz8vb9yhyb5KAC'' @
     ''yFsLYcSXnc/RKhSeu1pjOhwSthLqDMHHtEQVz8zHYbeALKcMfdqfo+rCf8c44/z2'' @
     ''72HvfRzTJRwGQtZTY9hyDVpjw+mST00M1jgzXeT0X4PyEyDjiZayCfI9neGhHitu'' @
     ''u1ZEff2nHfR8hvTejNzQpALJeWrEjjC35ckjfjM/rEz4vXipzrhQThRaLW1j8dPE'' @
     ''n6c94hkd2pLj9fQFwicOkDF137+SWv/8TpHen9bp2BUA2AuccQWSpBZZ8NWJwpsG'' @
     ''5CZ99FyvMzL4z2cgs6h0JHzewr9PjpzPeu084v3Pyd9+7mz2fv1Pf+RUA2charYR'' @
     ''8LebyXIuh2YCJvM8rYw1OjzUhctDhgeeu+djyHQb+S8bjH3R5ZIAkcZgU9PzVPez'' @
     ''+5dvp0Di/AiCbKAaJI19pcXkm4MykT7YQciHncybnQ5AsLGjyo6nIew38i4zHv+r'' @
     ''y6LAO6xm6793F7s/eRudP7tAGVQBk03IwUWrx5liDwwNVpuZCJksRI7UIP7DgHLv'' @
     ''Shn+U8fhiT4qOJKHz3l52f/Y2uj62U3P7FQDZKirVkPFKzLkJn+Njda7MBsxXIsr'' @
     ''1iHud4Ws7U9z5sS52/9pH6P7YLp38CoBsVY1mxOhcwNkJn6OXK4zMtfhqb4bP/NZ'' @
     ''H6frJHg31KQCy1Vm3MJrQsuTnfe7a1UnnDg31KQCy/WJgHZ7Ry1MVABFZd3qhvYg'' @
     ''CICIKgIgoACKiAIiIAiAiCoCIKAAiogCIiAIgIgqAiCgAIqIAiIgCICIKgIgoACK'' @
     ''iAIiIAiAiCoCIKAAiogCIiAIgIgqAiCgAIqIAiIgCICIKgIgoACKiAIiIAiAiCoC'' @
     ''IKAAiogCIiAIgIgqAiCgAIqIAiCgA2gQiCoCIKAAiogCIiAIgIgqAiCgAIqIAiIg'' @
     ''CICIKgIgoACKiAIiIAiAiCoCIKAAiogCIiAIgIgqAiCgAIqIAiIgCICIKgIgoACK'' @
     ''iAIiIAiAiCoCIKAAishL+PxQUqNNwV/GGAAAAAElFTkSuQmCC''"

text \<open>The argument is not used: the body is one template string without placeholders.\<close>

definition fetchFavicon :: "'a \<Rightarrow> string" where
  "fetchFavicon c = favicon_data"

subsection \<open>Indexing a site: \<open>indexAndAdd\<close>\<close>

text \<open>
  \<open>crawlPage\<close> as crawl.ts of this repository defines it. The generator logs the start,
  computes the seed paths, for a URL on github.com asks the GitHub API for the markdown
  files of the repository, logs the end and returns. Its body has no \<open>yield\<close>: whatever
  the URL and the depth, it produces no page.
\<close>

definition crawlPage_src :: "string \<Rightarrow> nat option \<Rightarrow> PageData list" where
  "crawlPage_src u depth = []"

text \<open>
  The crawling loop. \<open>processedPages\<close> counts every page; a page without an article
  leaves the loop body at \<open>continue\<close>, before the event and before the test that doubles
  \<open>maxKnownPages\<close>. The quotient of two counters is exact in the arithmetic of the source
  as long as the divisor is a power of two, so \<open>progress\<close> is a rational number here.
  Returns the articles and the events of the loop.
\<close>

fun crawl_loop ::
  "Env \<Rightarrow> PageData list \<Rightarrow> nat \<Rightarrow> nat \<Rightarrow> Article list \<times> IndexingProgressUpdate list" where
  "crawl_loop env [] processedPages maxKnownPages = ([], [])"
| "crawl_loop env (page # pages) processedPages maxKnownPages =
     (let processedPages' = processedPages + 1 in
      case pageToArticle env page of
        None \<Rightarrow> crawl_loop env pages processedPages' maxKnownPages
      | Some article \<Rightarrow>
          (let ev = \<lparr>progress = min (of_nat processedPages' / of_nat maxKnownPages) 1,
                     desc = ''Finding subpages ('' @ page_path page @ '')'',
                     status = ''indexing''\<rparr>;
               maxKnownPages' = (if processedPages' = maxKnownPages
                                 then maxKnownPages * 2 else maxKnownPages);
               r = crawl_loop env pages processedPages' maxKnownPages'
           in (article # fst r, ev # snd r)))"

text \<open>
  The embedding loop over \<open>articles[i..]\<close>, \<open>n\<close> being \<open>articles.length\<close>. Inside the
  \<open>try\<close> the chunks of the article are pushed before \<open>embed\<close> is called, so an \<open>embed\<close>
  that raises leaves them in \<open>chunks\<close>. Returns the events, \<open>chunks\<close> and \<open>embeddings\<close>.
  The progress \<open>i / articles.length\<close> is the exact quotient here, where the source has the
  nearest floating point number; nothing below depends on its value.
\<close>

fun embed_loop ::
  "Env \<Rightarrow> EmbeddingsProvider \<Rightarrow> nat \<Rightarrow> nat \<Rightarrow> Article list \<Rightarrow> Chunk list \<Rightarrow> vector list \<Rightarrow>
   IndexingProgressUpdate list \<times> Chunk list \<times> vector list" where
  "embed_loop env embeddingsProvider n i [] chunks embeddings = ([], chunks, embeddings)"
| "embed_loop env embeddingsProvider n i (article # articles) chunks embeddings =
     (let ev = \<lparr>progress = of_nat i / of_nat n,
                desc = ''Creating Embeddings: '' @ subpath article,
                status = ''indexing''\<rparr>;
          pushed =
            (case chunkArticle env article (maxChunkSize embeddingsProvider) of
               None \<Rightarrow> (chunks, embeddings)
             | Some chunkedArticle \<Rightarrow>
                 (case embed env (provider_id embeddingsProvider) (map content chunkedArticle) of
                    None \<Rightarrow> (chunks @ chunkedArticle, embeddings)
                  | Some subpathEmbeddings \<Rightarrow>
                      (chunks @ chunkedArticle, embeddings @ subpathEmbeddings)));
          r = embed_loop env embeddingsProvider n (i + 1) articles (fst pushed) (snd pushed)
      in (ev # fst r, snd r))"

definition event_already_indexed :: IndexingProgressUpdate where
  "event_already_indexed = \<lparr>progress = 1, desc = ''Already indexed'', status = ''done''\<rparr>"

definition event_finding_subpages :: IndexingProgressUpdate where
  "event_finding_subpages = \<lparr>progress = 0, desc = ''Finding subpages'', status = ''indexing''\<rparr>"

definition event_no_embeddings :: "string \<Rightarrow> IndexingProgressUpdate" where
  "event_no_embeddings u =
     \<lparr>progress = 1, desc = ''No embeddings were created for site: '' @ u, status = ''failed''\<rparr>"

definition event_adding :: "nat \<Rightarrow> IndexingProgressUpdate" where
  "event_adding n =
     \<lparr>progress = 1 / 2, desc = ''Adding '' @ string_of_nat n @ '' embeddings to db'',
      status = ''indexing''\<rparr>"

definition event_done :: IndexingProgressUpdate where
  "event_done = \<lparr>progress = 1, desc = ''Done'', status = ''done''\<rparr>"

text \<open>
  A run of the generator, consumed to its end: the events in order, the exception if one
  ended the run, and the state then. The generator is cut where the source suspends
  between the test of the queue and the insertion into it:
  \<open>indexAndAdd_enqueued\<close> is the body from \<open>this.docsIndexingQueue.add(startUrl)\<close> on,
  \<open>indexAndAdd_checked\<close> the body from \<open>!reIndex && (await this.has(startUrl))\<close> on, and
  \<open>indexAndAdd\<close> the whole.
\<close>

type_synonym run = "IndexingProgressUpdate list \<times> error option \<times> DocsService"

text \<open>The crawling and the embedding of one run: the events of both loops, \<open>chunks\<close>
  and \<open>embeddings\<close>. Of the state of the service the loops read the configured provider
  only, and they write nothing.\<close>

definition crawl_and_embed ::
  "Env \<Rightarrow> SiteIndexingConfig \<Rightarrow> DocsService \<Rightarrow>
   IndexingProgressUpdate list \<times> Chunk list \<times> vector list" where
  "crawl_and_embed env c st =
     (let embeddingsProvider = getEmbeddingsProvider env False st;
          crawled = crawl_loop env (crawlPage env (startUrl c) (maxDepth c)) 0 1;
          articles = fst crawled;
          embedded = embed_loop env embeddingsProvider (length articles) 0 articles [] []
      in (snd crawled @ fst embedded, snd embedded))"

text \<open>The body after the insertion into the queue. The event \<open>Finding subpages\<close> is
  yielded first; \<open>new URL(startUrl)\<close> is evaluated when the loop over the pages starts,
  and a \<open>startUrl\<close> that is no URL ends the run there with its exception, the site
  being in the queue.\<close>

definition indexAndAdd_enqueued :: "Env \<Rightarrow> SiteIndexingConfig \<Rightarrow> bool \<Rightarrow> DocsService \<Rightarrow> run" where
  "indexAndAdd_enqueued env c reIndex st =
     (let st1 = st\<lparr>docsIndexingQueue := insert (startUrl c) (docsIndexingQueue st)\<rparr> in
      case parseUrl env (startUrl c) of
        None \<Rightarrow> ([event_finding_subpages], Some (InvalidUrl (startUrl c)), st1)
      | Some href \<Rightarrow>
          (let collected = crawl_and_embed env c st;
               chunks = fst (snd collected);
               embeddings = snd (snd collected);
               evs = [event_finding_subpages] @ fst collected
           in if length embeddings = 0
              then (evs @ [event_no_embeddings (startUrl c)], None, st1)
              else
                (let evs2 = evs @ [event_adding (length embeddings)] in
                 case (if reIndex then delete env (startUrl c) st1 else (None, st1)) of
                   (Some e, st2) \<Rightarrow> (evs2, Some e, st2)
                 | (None, st2) \<Rightarrow>
                     (let favicon = fetchFavicon c in
                      case add env \<lparr>siteIndexingConfig = c, params_chunks = chunks,
                                     params_embeddings = embeddings,
                                     params_favicon = favicon\<rparr> st2 of
                        (Some e, st3) \<Rightarrow> (evs2, Some e, st3)
                      | (None, st3) \<Rightarrow>
                          (let st4 = st3\<lparr>docsIndexingQueue :=
                                           docsIndexingQueue st3 - {startUrl c}\<rparr>
                           in (evs2 @ [event_done], None,
                               messenger_send env ''refreshSubmenuItems'' st4))))))"

definition indexAndAdd_checked :: "Env \<Rightarrow> SiteIndexingConfig \<Rightarrow> bool \<Rightarrow> DocsService \<Rightarrow> run" where
  "indexAndAdd_checked env c reIndex st =
     (if \<not> reIndex \<and> has env st (startUrl c) then ([event_already_indexed], None, st)
      else indexAndAdd_enqueued env c reIndex st)"

definition indexAndAdd :: "Env \<Rightarrow> SiteIndexingConfig \<Rightarrow> bool \<Rightarrow> DocsService \<Rightarrow> run" where
  "indexAndAdd env c reIndex st =
     (if startUrl c \<in> docsIndexingQueue st then ([], None, st)
      else indexAndAdd_checked env c reIndex st)"

subsection \<open>Retrieval with the remote fallback\<close>

text \<open>
  \<open>table.search(vector).limit(nRetrieve).where(filter).execute()\<close>. The vector store
  takes the \<open>nRetrieve\<close> nearest rows of the whole table first and applies the filter to
  them, so rows of the site beyond the \<open>nRetrieve\<close> nearest rows are not found.
\<close>

definition search_table ::
  "Env \<Rightarrow> string \<Rightarrow> vector \<Rightarrow> nat \<Rightarrow> string \<Rightarrow> DocsService \<Rightarrow> error + LanceDbDocsRow list" where
  "search_table env table v nRetrieve u st =
     (case lanceTables st table of
        None \<Rightarrow> Inl (LanceTableNotFound table)
      | Some t \<Rightarrow>
          if nRetrieve = 0 \<or> length v \<noteq> dimension t then Inl LanceInvalidQuery
          else (case starturl_filter env u of
                  None \<Rightarrow> Inl (LanceInvalidFilter u)
                | Some matches \<Rightarrow>
                    Inr (filter matches (take nRetrieve (nearest env v (table_rows t))))))"

definition chunk_of_row :: "LanceDbDocsRow \<Rightarrow> Chunk" where
  "chunk_of_row doc =
     \<lparr>digest = path doc, filepath = path doc, startLine = startline doc, endLine = endline doc,
      chunk_index = 0, content = row_content doc, otherMetadata_title = Some (row_title doc)\<rparr>"

text \<open>The bundle is downloaded first; a bundle whose \<open>url\<close> is no URL ends the method
  with the exception of \<open>new URL\<close>, after the download.\<close>

definition fetchAndAddPreIndexedDocEmbeddings ::
  "Env \<Rightarrow> string \<Rightarrow> DocsService \<Rightarrow> error option \<times> DocsService" where
  "fetchAndAddPreIndexedDocEmbeddings env t st =
     (let embeddingsProvider = getEmbeddingsProvider env True st;
          st1 = st\<lparr>effects := effects st @ [S3Download (provider_id embeddingsProvider) t]\<rparr>;
          siteEmbeddings = downloadFromS3 env (provider_id embeddingsProvider) t
      in case parseUrl env (bundle_url siteEmbeddings) of
           None \<Rightarrow> (Some (InvalidUrl (bundle_url siteEmbeddings)), st1)
         | Some u \<Rightarrow>
             (let favicon = fetchFavicon (preIndexedDocs env u)
              in add env \<lparr>siteIndexingConfig =
                             \<lparr>startUrl = u, title = bundle_title siteEmbeddings,
                              maxDepth = None, faviconUrl = None\<rparr>,
                           params_chunks = map fst (bundle_chunks siteEmbeddings),
                           params_embeddings = map snd (bundle_chunks siteEmbeddings),
                           params_favicon = favicon\<rparr> st1))"

text \<open>The effect \<open>LanceSearch\<close> is recorded when the search is handed to the vector
  store, whether the store answers or refuses.\<close>

function retrieveChunks ::
  "Env \<Rightarrow> string \<Rightarrow> vector \<Rightarrow> nat \<Rightarrow> bool \<Rightarrow> DocsService \<Rightarrow> (error + Chunk list) \<times> DocsService" where
  "retrieveChunks env u v nRetrieve isRetry st =
     (case getOrCreateLanceTable env (Some v) (isPreIndexedDoc env u) st of
        (Inl e, st1) \<Rightarrow> (Inl e, st1)
      | (Inr table, st1) \<Rightarrow>
          (let st2 = st1\<lparr>effects := effects st1 @ [LanceSearch table u nRetrieve]\<rparr> in
           case search_table env table v nRetrieve u st1 of
             Inl e \<Rightarrow> (Inl e, st2)
           | Inr docs \<Rightarrow>
               if \<not> hasIndexedDoc env st2 u \<and> length docs = 0
               then (case preIndexedDocs env u of
                       None \<Rightarrow> (Inr [], st2)
                     | Some preIndexedDoc \<Rightarrow>
                         if isRetry then (Inr [], st2)
                         else (case fetchAndAddPreIndexedDocEmbeddings env
                                      (title preIndexedDoc) st2 of
                                 (Some e, st3) \<Rightarrow> (Inl e, st3)
                               | (None, st3) \<Rightarrow> retrieveChunks env u v nRetrieve True st3))
               else (Inr (map chunk_of_row docs), st2)))"
  by pat_completeness auto
termination
  by (relation "measure (\<lambda>(env, u, v, nRetrieve, isRetry, st). if isRetry then 0 else 1)") auto

declare retrieveChunks.simps [simp del]

subsection \<open>Switching the embeddings provider\<close>

definition jetbrains_warning :: string where
  "jetbrains_warning =
     ''The 'transformers.js' embeddings provider currently cannot be used to index '' @
     ''documentation in JetBrains. To enable documentation indexing, you can use '' @
     ''any of the other providers described in the docs: '' @
     ''https://docs.continue.dev/walkthroughs/codebase-embeddings#embeddings-providers''"

text \<open>The test of the host comes first: on a JetBrains host with the provider of the
  pre-indexed docs the popup is shown before the persisted id is read.
  \<open>!lastEmbeddingsProviderId\<close> holds for a missing value and for the empty string.\<close>

definition shouldReindexDocsOnNewEmbeddingsProvider ::
  "Env \<Rightarrow> string \<Rightarrow> DocsService \<Rightarrow> bool \<times> DocsService" where
  "shouldReindexDocsOnNewEmbeddingsProvider env curId st =
     (if isJetBrainsAndPreIndexedDocsProvider env st
      then (False, st\<lparr>effects := effects st @ [ErrorPopup jetbrains_warning],
                      curEmbeddingsProviderId := Some curId\<rparr>)
      else (case curEmbeddingsProviderId st of
              None \<Rightarrow> (False, st\<lparr>curEmbeddingsProviderId := Some curId\<rparr>)
            | Some lastEmbeddingsProviderId \<Rightarrow>
                if lastEmbeddingsProviderId = []
                then (False, st\<lparr>curEmbeddingsProviderId := Some curId\<rparr>)
                else (lastEmbeddingsProviderId \<noteq> curId, st)))"

text \<open>
  The steps of \<open>reindexDocsOnNewEmbeddingsProvider\<close> for the configured sites: for each site
  a \<open>delete\<close> and a complete run of \<open>indexAndAdd\<close>, and at the end the update of the
  persisted provider id. An exception in a step ends the operation there.
\<close>

datatype step = DeleteSite string | IndexSite SiteIndexingConfig | UpdateProviderId string

fun run_step :: "Env \<Rightarrow> step \<Rightarrow> DocsService \<Rightarrow> error option \<times> DocsService" where
  "run_step env (DeleteSite u) st = delete env u st"
| "run_step env (IndexSite doc) st = snd (indexAndAdd env doc False st)"
| "run_step env (UpdateProviderId i) st = (None, st\<lparr>curEmbeddingsProviderId := Some i\<rparr>)"

fun run_steps :: "Env \<Rightarrow> step list \<Rightarrow> DocsService \<Rightarrow> error option \<times> DocsService" where
  "run_steps env [] st = (None, st)"
| "run_steps env (s # ss) st =
     (case run_step env s st of
        (Some e, st') \<Rightarrow> (Some e, st')
      | (None, st') \<Rightarrow> run_steps env ss st')"

definition reindex_steps :: "EmbeddingsProvider \<Rightarrow> SiteIndexingConfig list \<Rightarrow> step list" where
  "reindex_steps embeddingsProvider docs =
     concat (map (\<lambda>doc. [DeleteSite (startUrl doc), IndexSite doc]) docs) @
     [UpdateProviderId (provider_id embeddingsProvider)]"

definition reindexDocsOnNewEmbeddingsProvider ::
  "Env \<Rightarrow> EmbeddingsProvider \<Rightarrow> DocsService \<Rightarrow> error option \<times> DocsService" where
  "reindexDocsOnNewEmbeddingsProvider env embeddingsProvider st =
     (case config_docs st of
        None \<Rightarrow> (None, st)
      | Some docs \<Rightarrow>
          if length docs = 0 then (None, st)
          else run_steps env (reindex_steps embeddingsProvider docs) st)"

text \<open>The end of the handler of a configuration update (the callback in \<open>init\<close>), after
  \<open>this.config = newConfig\<close> and the synchronisation of the sites: \<open>st\<close> is the state
  with the new configuration, whose provider is \<open>newConfig.embeddingsProvider\<close>. The
  reindexing runs only if \<open>shouldReindexDocsOnNewEmbeddingsProvider\<close> says so.\<close>

definition onConfigUpdate_provider :: "Env \<Rightarrow> DocsService \<Rightarrow> error option \<times> DocsService" where
  "onConfigUpdate_provider env st =
     (let newProvider = config_embeddingsProvider st in
      case shouldReindexDocsOnNewEmbeddingsProvider env (provider_id newProvider) st of
        (shouldReindex, st1) \<Rightarrow>
          if shouldReindex then reindexDocsOnNewEmbeddingsProvider env newProvider st1
          else (None, st1))"

subsection \<open>Notions used in the statements\<close>

text \<open>The row that \<open>addToSqlite\<close> inserts for the parameters of \<open>add\<close>.\<close>

definition sqlite_row_of :: "Env \<Rightarrow> AddParams \<Rightarrow> SqliteDocsRow" where
  "sqlite_row_of env params =
     \<lparr>doc_title = stored_text env (title (siteIndexingConfig params)),
      doc_startUrl = stored_text env (startUrl (siteIndexingConfig params)),
      doc_favicon = stored_text env (params_favicon params)\<rparr>"




fun is_download :: "effect \<Rightarrow> bool" where
  "is_download (S3Download i t) = True"
| "is_download e = False"

fun is_search :: "effect \<Rightarrow> bool" where
  "is_search (LanceSearch t u k) = True"
| "is_search e = False"

fun is_popup :: "effect \<Rightarrow> bool" where
  "is_popup (ErrorPopup m) = True"
| "is_popup e = False"

definition downloads :: "DocsService \<Rightarrow> nat" where
  "downloads st = length (filter is_download (effects st))"

definition searches :: "DocsService \<Rightarrow> nat" where
  "searches st = length (filter is_search (effects st))"

definition popups :: "DocsService \<Rightarrow> nat" where
  "popups st = length (filter is_popup (effects st))"

text \<open>Every tracked table name is the name of a table of the vector store. The names
  are tracked only after their table was opened, and no method drops a table.\<close>

definition tracked_tables_exist :: "DocsService \<Rightarrow> bool" where
  "tracked_tables_exist st = list_all (\<lambda>n. lanceTables st n \<noteq> None) (lanceTableNamesSet st)"

text \<open>The parts of a retrieval: whether \<open>retrieveChunks\<close> gets its table, what its
  search answers in the state \<open>st\<close>, and the state after the search.\<close>

definition table_opened :: "Env \<Rightarrow> string \<Rightarrow> vector \<Rightarrow> DocsService \<Rightarrow> bool" where
  "table_opened env u v st =
     (case getOrCreateLanceTable env (Some v) (isPreIndexedDoc env u) st of
        (Inl e, st1) \<Rightarrow> False
      | (Inr table, st1) \<Rightarrow> True)"

definition local_search ::
  "Env \<Rightarrow> string \<Rightarrow> vector \<Rightarrow> nat \<Rightarrow> DocsService \<Rightarrow> error + LanceDbDocsRow list" where
  "local_search env u v k st =
     (case getOrCreateLanceTable env (Some v) (isPreIndexedDoc env u) st of
        (Inl e, st1) \<Rightarrow> Inl e
      | (Inr table, st1) \<Rightarrow> search_table env table v k u st1)"

definition after_search :: "Env \<Rightarrow> string \<Rightarrow> vector \<Rightarrow> nat \<Rightarrow> DocsService \<Rightarrow> DocsService" where
  "after_search env u v k st =
     (case getOrCreateLanceTable env (Some v) (isPreIndexedDoc env u) st of
        (Inl e, st1) \<Rightarrow> st1
      | (Inr table, st1) \<Rightarrow> st1\<lparr>effects := effects st1 @ [LanceSearch table u k]\<rparr>)"

text \<open>The test that guards the remote fallback, without the flag \<open>isRetry\<close>: the search
  answered with no row, the relational table has no row of the site, and the site is in
  the catalog of pre-indexed docs.\<close>

definition fallback_needed :: "Env \<Rightarrow> string \<Rightarrow> vector \<Rightarrow> nat \<Rightarrow> DocsService \<Rightarrow> bool" where
  "fallback_needed env u v k st =
     (local_search env u v k st = Inr [] \<and> \<not> hasIndexedDoc env st u \<and> isPreIndexedDoc env u)"

text \<open>The download and the persisting of the bundle of the site, after the search.\<close>

definition fallback_result ::
  "Env \<Rightarrow> string \<Rightarrow> vector \<Rightarrow> nat \<Rightarrow> DocsService \<Rightarrow> error option \<times> DocsService" where
  "fallback_result env u v k st =
     (case preIndexedDocs env u of
        None \<Rightarrow> (None, after_search env u v k st)
      | Some d \<Rightarrow> fetchAndAddPreIndexedDocEmbeddings env (title d) (after_search env u v k st))"

text \<open>A retrieval without the fallback: the answer of the search, as chunks.\<close>

definition search_only ::
  "Env \<Rightarrow> string \<Rightarrow> vector \<Rightarrow> nat \<Rightarrow> DocsService \<Rightarrow> (error + Chunk list) \<times> DocsService" where
  "search_only env u v k st =
     (case local_search env u v k st of
        Inl e \<Rightarrow> (Inl e, after_search env u v k st)
      | Inr docs \<Rightarrow> (Inr (map chunk_of_row docs), after_search env u v k st))"

text \<open>Every vector table of the first state is a table of the second, with vectors of
  the same length.\<close>

definition tables_kept :: "DocsService \<Rightarrow> DocsService \<Rightarrow> bool" where
  "tables_kept st st' =
     (\<forall>n t. lanceTables st n = Some t \<longrightarrow>
        (\<exists>t'. lanceTables st' n = Some t' \<and> dimension t' = dimension t))"

text \<open>No vector table of the second state has a row that the table did not have in the
  first state.\<close>

definition no_new_rows :: "DocsService \<Rightarrow> DocsService \<Rightarrow> bool" where
  "no_new_rows st st' =
     (\<forall>n t'. lanceTables st' n = Some t' \<longrightarrow>
        table_rows t' = [] \<or>
        (\<exists>t. lanceTables st n = Some t \<and> set (table_rows t') \<subseteq> set (table_rows t)))"

text \<open>The URL under which the bundle of the site is persisted.\<close>

definition bundle_startUrl :: "Env \<Rightarrow> string \<Rightarrow> DocsService \<Rightarrow> string option" where
  "bundle_startUrl env u st =
     (case preIndexedDocs env u of
        None \<Rightarrow> None
      | Some d \<Rightarrow>
          parseUrl env (bundle_url (downloadFromS3 env
            (provider_id (getEmbeddingsProvider env True st)) (title d))))"




text \<open>The run entered the step that persists: it yielded the event
  \<open>Adding n embeddings to db\<close>, the only event whose text starts with \<open>Adding\<close>.\<close>

definition reached_persisting :: "run \<Rightarrow> bool" where
  "reached_persisting r = list_ex (\<lambda>e. take 7 (desc e) = ''Adding '') (fst r)"

subsection \<open>A small installation for concrete runs\<close>

definition example_config :: SiteIndexingConfig where
  "example_config =
     \<lparr>startUrl = ''https://docs.example.com'', title = ''Docs'',
      maxDepth = Some 2, faviconUrl = None\<rparr>"

definition example_chunk :: "Article \<Rightarrow> Chunk" where
  "example_chunk a =
     \<lparr>digest = subpath a, filepath = subpath a, startLine = 0, endLine = 1,
      chunk_index = 0, content = article_text a, otherMetadata_title = None\<rparr>"

text \<open>A URL parser for texts of the form \<open>https://host\<close> and \<open>https://host/path\<close>: the
  first is printed with a slash at its end, anything without the scheme is refused.\<close>

definition example_parseUrl :: "string \<Rightarrow> string option" where
  "example_parseUrl s =
     (if take 8 s = ''https://'' \<and> drop 8 s \<noteq> []
      then Some (if CHR ''/'' \<in> set (drop 8 s) then s else s @ ''/'')
      else None)"

text \<open>A crawler that finds three pages, a chunker that makes one chunk of each article,
  and a provider that embeds a text as its length.\<close>

definition example_env :: Env where
  "example_env =
     \<lparr>ideType = ''vscode'', hasMessenger = True,
      preIndexedDocs = (\<lambda>u. None),
      preIndexedDocsEmbeddingsProvider = \<lparr>provider_id = ''tjs'', maxChunkSize = 512\<rparr>,
      parseUrl = example_parseUrl,
      crawlPage = (\<lambda>u d. [\<lparr>url = u, page_path = ''/a'', html = ''A''\<rparr>,
                            \<lparr>url = u, page_path = ''/b'', html = ''BB''\<rparr>,
                            \<lparr>url = u, page_path = ''/c'', html = ''CCC''\<rparr>]),
      pageToArticle = (\<lambda>p. Some \<lparr>subpath = page_path p, article_text = html p\<rparr>),
      chunkArticle = (\<lambda>a n. Some [example_chunk a]),
      embed = (\<lambda>i ts. Some (map (\<lambda>t. [of_nat (length t)]) ts)),
      downloadFromS3 = (\<lambda>i t. \<lparr>bundle_url = [], bundle_title = t, bundle_chunks = []\<rparr>),
      nearest = (\<lambda>v rows. rows),
      lanceFilter = (\<lambda>s. None),
      lanceCreatesFromEmptyVector = False,
      lanceAddsEmptyBatch = False,
      sqliteNumeric = (\<lambda>s. s)\<rparr>"

definition example_state :: DocsService where
  "example_state =
     \<lparr>docsIndexingQueue = {}, lanceTableNamesSet = [],
      config_docs = Some [example_config],
      config_embeddingsProvider = \<lparr>provider_id = ''openai:x'', maxChunkSize = 256\<rparr>,
      curEmbeddingsProviderId = Some ''tjs'',
      sqliteDocs = [], lanceTables = Map.empty, configJsonDocs = Some [example_config],
      effects = []\<rparr>"

text \<open>The site is already in the relational table.\<close>

definition indexed_state :: DocsService where
  "indexed_state =
     example_state\<lparr>sqliteDocs :=
       [\<lparr>doc_title = ''Docs'', doc_startUrl = ''https://docs.example.com'',
         doc_favicon = favicon_data\<rparr>]\<rparr>"

text \<open>The site is being indexed by another call.\<close>

definition queued_state :: DocsService where
  "queued_state = example_state\<lparr>docsIndexingQueue := {''https://docs.example.com''}\<rparr>"

text \<open>The installation with the crawler of this repository.\<close>

definition no_page_env :: Env where
  "no_page_env = example_env\<lparr>crawlPage := crawlPage_src\<rparr>"

text \<open>A site whose \<open>startUrl\<close> is no URL.\<close>

definition not_a_url_config :: SiteIndexingConfig where
  "not_a_url_config = example_config\<lparr>startUrl := ''notaurl''\<rparr>"

text \<open>A JetBrains host whose configured provider is the provider of the pre-indexed docs.\<close>

definition jetbrains_env :: Env where
  "jetbrains_env = example_env\<lparr>ideType := ''jetbrains''\<rparr>"

definition jetbrains_state :: DocsService where
  "jetbrains_state =
     example_state\<lparr>config_embeddingsProvider := \<lparr>provider_id = ''tjs'', maxChunkSize = 512\<rparr>,
                   curEmbeddingsProviderId := Some ''openai:x''\<rparr>"

text \<open>Two pages; the provider raises on the text of the first and embeds the second.\<close>

definition failing_env :: Env where
  "failing_env =
     example_env\<lparr>
       crawlPage := (\<lambda>u d. [\<lparr>url = u, page_path = ''/a'', html = ''A''\<rparr>,
                             \<lparr>url = u, page_path = ''/b'', html = ''BB''\<rparr>]),
       embed := (\<lambda>i ts. if ts = [''A''] then None
                         else Some (map (\<lambda>t. [of_nat (length t)]) ts))\<rparr>"

text \<open>The state after the site of \<open>example_config\<close> was indexed in \<open>example_state\<close>.\<close>

definition example_rows :: "LanceDbDocsRow list" where
  "example_rows =
     [\<lparr>row_title = ''Docs'', starturl = ''https://docs.example.com'', row_content = ''A'',
       path = ''/a'', startline = 0, endline = 1, vector = Some [1]\<rparr>,
      \<lparr>row_title = ''Docs'', starturl = ''https://docs.example.com'', row_content = ''BB'',
       path = ''/b'', startline = 0, endline = 1, vector = Some [2]\<rparr>,
      \<lparr>row_title = ''Docs'', starturl = ''https://docs.example.com'', row_content = ''CCC'',
       path = ''/c'', startline = 0, endline = 1, vector = Some [3]\<rparr>]"

definition stored_state :: DocsService where
  "stored_state =
     example_state\<lparr>
       lanceTableNamesSet := [''docsopenaix''],
       sqliteDocs := [\<lparr>doc_title = ''Docs'', doc_startUrl = ''https://docs.example.com'',
                       doc_favicon = favicon_data\<rparr>],
       lanceTables := [''docsopenaix'' \<mapsto> \<lparr>dimension = 1, table_rows = example_rows\<rparr>],
       effects := [MessengerSend ''refreshSubmenuItems'']\<rparr>"

text \<open>A site name with a single quote.\<close>

definition quoted_url :: string where
  "quoted_url = ''it'' @ [single_quote] @ ''s''"

text \<open>A catalog with one pre-indexed site, whose bundle holds one embedded chunk and
  names the site by the URL of the catalog.\<close>

definition catalog_config :: SiteIndexingConfig where
  "catalog_config =
     \<lparr>startUrl = ''https://pre.example/'', title = ''Pre'', maxDepth = None, faviconUrl = None\<rparr>"

definition catalog_env :: Env where
  "catalog_env =
     example_env\<lparr>
       preIndexedDocs :=
         (\<lambda>u. if u = ''https://pre.example/'' then Some catalog_config else None),
       downloadFromS3 :=
         (\<lambda>i t. \<lparr>bundle_url = ''https://pre.example/'', bundle_title = ''Pre'',
                   bundle_chunks =
                     [(example_chunk \<lparr>subpath = ''/p'', article_text = ''P''\<rparr>, [7])]\<rparr>)\<rparr>"

text \<open>The same catalog and bundle with the site named \<open>https://pre.example\<close>, which
  \<open>new URL(...).toString()\<close> prints as \<open>https://pre.example/\<close>.\<close>

definition bare_catalog_config :: SiteIndexingConfig where
  "bare_catalog_config =
     \<lparr>startUrl = ''https://pre.example'', title = ''Pre'', maxDepth = None, faviconUrl = None\<rparr>"

definition bare_catalog_env :: Env where
  "bare_catalog_env =
     example_env\<lparr>
       preIndexedDocs :=
         (\<lambda>u. if u = ''https://pre.example'' then Some bare_catalog_config else None),
       downloadFromS3 :=
         (\<lambda>i t. \<lparr>bundle_url = ''https://pre.example'', bundle_title = ''Pre'',
                   bundle_chunks =
                     [(example_chunk \<lparr>subpath = ''/p'', article_text = ''P''\<rparr>, [7])]\<rparr>)\<rparr>"

text \<open>The catalog names the site \<open>https://pre.example\<close>; the bundle is persisted under
  \<open>https://pre.example/\<close>. The first retrieval downloads the bundle and finds no row of
  \<open>https://pre.example\<close> in its second search.\<close>

definition bare_after_first :: DocsService where
  "bare_after_first =
     example_state\<lparr>
        lanceTableNamesSet := [''docstjs'', ''docsopenaix''],
        sqliteDocs := [\<lparr>doc_title = ''Pre'', doc_startUrl = ''https://pre.example/'',
                        doc_favicon = favicon_data\<rparr>],
        lanceTables := [''docstjs'' \<mapsto> \<lparr>dimension = 1, table_rows = []\<rparr>,
          ''docsopenaix'' \<mapsto> \<lparr>dimension = 1, table_rows =
          [\<lparr>row_title = ''Pre'', starturl = ''https://pre.example/'', row_content = ''P'',
            path = ''/p'', startline = 0, endline = 1, vector = Some [7]\<rparr>]\<rparr>],
        configJsonDocs := Some [example_config,
          \<lparr>startUrl = ''https://pre.example/'', title = ''Pre'', maxDepth = None,
            faviconUrl = None\<rparr>],
        effects := [LanceSearch ''docstjs'' ''https://pre.example'' 5, S3Download ''tjs'' ''Pre'',
                    LanceSearch ''docstjs'' ''https://pre.example'' 5]\<rparr>"

section \<open>Auxiliary facts\<close>

lemma and_then_None [simp]: "f st = (None, st1) \<Longrightarrow> and_then f g st = g st1"
  by (simp add: and_then_def)

lemma and_then_Some [simp]: "f st = (Some e, st1) \<Longrightarrow> and_then f g st = (Some e, st1)"
  by (simp add: and_then_def)

subsection \<open>Texts that the stores take as they are\<close>

lemma starts_like_number_append:
  "\<not> sqlite_space c \<Longrightarrow> c \<notin> set ''+-.0123456789'' \<Longrightarrow> \<not> starts_like_number ((c # cs) @ rest)"
  by (simp add: starts_like_number_def)

lemma starts_like_number_favicon: "\<not> starts_like_number favicon_data"
  unfolding favicon_data_def
  by (rule starts_like_number_append) (simp_all add: sqlite_space_def)

lemma stored_text_favicon: "stored_text env favicon_data = favicon_data"
  by (simp add: stored_text_def starts_like_number_favicon)

lemma stored_text_example:
  "stored_text env ''https://docs.example.com'' = ''https://docs.example.com''"
  "stored_text env ''https://pre.example/'' = ''https://pre.example/''"
  "stored_text env ''https://pre.example'' = ''https://pre.example''"
  "stored_text env ''Docs'' = ''Docs''"
  "stored_text env ''Pre'' = ''Pre''"
  "stored_text env ''notaurl'' = ''notaurl''"
  by (simp_all add: stored_text_def starts_like_number_def sqlite_space_def)

lemma starturl_filter_plain:
  "plain_text u \<Longrightarrow> starturl_filter env u = Some (\<lambda>r. starturl r = u)"
  by (simp add: starturl_filter_def)

lemma plain_text_example:
  "plain_text ''https://docs.example.com''"
  "plain_text ''https://pre.example/''"
  "plain_text ''https://pre.example''"
  by (simp_all add: plain_text_def single_quote_def)

lemma valid_table_name_example:
  "valid_table_name ''docsopenaix''"
  "valid_table_name ''docstjs''"
  by (simp_all add: valid_table_name_def alphanumeric_def)

lemma example_parseUrl_example:
  "example_parseUrl ''https://docs.example.com'' = Some ''https://docs.example.com/''"
  "example_parseUrl ''https://pre.example/'' = Some ''https://pre.example/''"
  "example_parseUrl ''https://pre.example'' = Some ''https://pre.example/''"
  "example_parseUrl ''notaurl'' = None"
  by (simp_all add: example_parseUrl_def)

subsection \<open>The events of the two loops\<close>

lemma crawl_loop_status:
  "e \<in> set (snd (crawl_loop env pages p m)) \<Longrightarrow> status e = ''indexing''"
  by (induction pages arbitrary: p m e) (auto simp: Let_def split: option.splits)

lemma embed_loop_status:
  "e \<in> set (fst (embed_loop env pr n i as cs es)) \<Longrightarrow> status e = ''indexing''"
  by (induction as arbitrary: i cs es e) (auto simp: Let_def split: option.splits)

lemma crawl_and_embed_status:
  "e \<in> set (fst (crawl_and_embed env c st)) \<Longrightarrow> status e = ''indexing''"
  by (auto simp: crawl_and_embed_def Let_def dest: crawl_loop_status embed_loop_status)


lemma example_crawl_progress:
  "map progress (snd (crawl_loop example_env
      (crawlPage example_env (startUrl example_config) (maxDepth example_config)) 0 1)) =
   [1, 1, 3 / 4]"
  by (simp add: example_env_def)

text \<open>With the crawler of this repository there is no page, so no article, no chunk and
  no embedding.\<close>

lemma crawlPage_src_collect:
  "crawlPage env = crawlPage_src \<Longrightarrow> crawl_and_embed env c st = ([], [], [])"
  by (simp add: crawl_and_embed_def crawlPage_src_def Let_def)

subsection \<open>Concrete runs\<close>

lemmas eval_defs =
  add_def addToLance_def getOrCreateLanceTable_def getLanceTableNameFromEmbeddingsProvider_def
  getEmbeddingsProvider_def isPreIndexedDoc_def removeInvalidLanceTableNameChars_def
  createLanceDocsTable_def open_tracked_def table_add_def batch_refused_def
  Let_def set_add_def enumerate_eq_zip row_of_chunk_def and_then_def
  addToSqlite_def addToConfig_def messenger_send_def canUsePreindexedDocs_def isJetBrains_def
  has_def hasIndexedDoc_def fetchFavicon_def stored_text_favicon stored_text_example
  valid_table_name_example plain_text_example starturl_filter_plain example_parseUrl_example

lemma example_collect:
  "crawl_and_embed example_env example_config st =
    ([\<lparr>progress = 1, desc = ''Finding subpages (/a)'', status = ''indexing''\<rparr>,
      \<lparr>progress = 1, desc = ''Finding subpages (/b)'', status = ''indexing''\<rparr>,
      \<lparr>progress = 3 / 4, desc = ''Finding subpages (/c)'', status = ''indexing''\<rparr>,
      \<lparr>progress = 0, desc = ''Creating Embeddings: /a'', status = ''indexing''\<rparr>,
      \<lparr>progress = 1 / 3, desc = ''Creating Embeddings: /b'', status = ''indexing''\<rparr>,
      \<lparr>progress = 2 / 3, desc = ''Creating Embeddings: /c'', status = ''indexing''\<rparr>],
     [example_chunk \<lparr>subpath = ''/a'', article_text = ''A''\<rparr>,
      example_chunk \<lparr>subpath = ''/b'', article_text = ''BB''\<rparr>,
      example_chunk \<lparr>subpath = ''/c'', article_text = ''CCC''\<rparr>],
     [[1], [2], [3]])"
  by (simp add: crawl_and_embed_def example_env_def example_chunk_def Let_def)

lemma example_parse:
  "parseUrl example_env (startUrl example_config) = Some ''https://docs.example.com/''"
  by (simp add: example_env_def example_config_def example_parseUrl_example)

lemma example_run:
  "indexAndAdd_enqueued example_env example_config False example_state =
     (event_finding_subpages # fst (crawl_and_embed example_env example_config example_state)
        @ [event_adding 3, event_done],
      None, stored_state)"
  apply (simp add: indexAndAdd_enqueued_def example_collect example_parse Let_def)
  apply (simp add: example_state_def example_env_def eval_defs example_chunk_def
      example_config_def stored_state_def example_rows_def numeral_3_eq_3)
  done

lemma example_second_run:
  "indexAndAdd_enqueued example_env example_config False stored_state =
     (event_finding_subpages # fst (crawl_and_embed example_env example_config example_state)
        @ [event_adding 3],
      Some (SqliteUniqueConstraint ''https://docs.example.com''),
      stored_state\<lparr>docsIndexingQueue := {''https://docs.example.com''},
                   lanceTables := [''docsopenaix'' \<mapsto>
                     \<lparr>dimension = 1, table_rows = example_rows @ example_rows\<rparr>]\<rparr>)"
  apply (simp add: indexAndAdd_enqueued_def example_collect example_parse Let_def)
  apply (simp add: example_state_def example_env_def eval_defs example_chunk_def
      example_config_def stored_state_def example_rows_def numeral_3_eq_3)
  done

lemma failing_collect:
  "snd (crawl_and_embed failing_env example_config st) =
     ([example_chunk \<lparr>subpath = ''/a'', article_text = ''A''\<rparr>,
       example_chunk \<lparr>subpath = ''/b'', article_text = ''BB''\<rparr>],
      [[2]])"
  by (simp add: crawl_and_embed_def failing_env_def example_env_def example_chunk_def Let_def)

lemma no_page_collect: "crawl_and_embed no_page_env c st = ([], [], [])"
  by (rule crawlPage_src_collect) (simp add: no_page_env_def)

text \<open>The two runs with the crawler of this repository: the first from a fresh state, the
  second from the state that the first leaves, continued from its insertion on.\<close>

lemma no_page_parse:
  "parseUrl no_page_env (startUrl example_config) = Some ''https://docs.example.com/''"
  by (simp add: no_page_env_def example_env_def example_config_def example_parseUrl_example)

lemma no_page_run:
  "indexAndAdd_enqueued no_page_env example_config False example_state =
     ([event_finding_subpages, event_no_embeddings ''https://docs.example.com''], None,
      example_state\<lparr>docsIndexingQueue := {''https://docs.example.com''}\<rparr>)"
  by (simp add: indexAndAdd_enqueued_def no_page_collect no_page_parse Let_def)
     (simp add: example_config_def example_state_def)

lemma no_page_second_run:
  "indexAndAdd_enqueued no_page_env example_config False
     (example_state\<lparr>docsIndexingQueue := {''https://docs.example.com''}\<rparr>) =
     ([event_finding_subpages, event_no_embeddings ''https://docs.example.com''], None,
      example_state\<lparr>docsIndexingQueue := {''https://docs.example.com''}\<rparr>)"
  by (simp add: indexAndAdd_enqueued_def no_page_collect no_page_parse Let_def)
     (simp add: example_config_def example_state_def)

subsection \<open>What each method leaves alone\<close>

lemma deleteFromLance_loop_frame:
  "docsIndexingQueue (snd (deleteFromLance_loop env u ns st)) = docsIndexingQueue st \<and>
   lanceTableNamesSet (snd (deleteFromLance_loop env u ns st)) = lanceTableNamesSet st \<and>
   config_docs (snd (deleteFromLance_loop env u ns st)) = config_docs st \<and>
   config_embeddingsProvider (snd (deleteFromLance_loop env u ns st)) =
     config_embeddingsProvider st \<and>
   curEmbeddingsProviderId (snd (deleteFromLance_loop env u ns st)) = curEmbeddingsProviderId st \<and>
   sqliteDocs (snd (deleteFromLance_loop env u ns st)) = sqliteDocs st \<and>
   configJsonDocs (snd (deleteFromLance_loop env u ns st)) = configJsonDocs st \<and>
   effects (snd (deleteFromLance_loop env u ns st)) = effects st"
  by (induction ns arbitrary: st) (auto split: option.splits)

lemma delete_frame:
  "docsIndexingQueue (snd (delete env u st)) = docsIndexingQueue st \<and>
   lanceTableNamesSet (snd (delete env u st)) = lanceTableNamesSet st \<and>
   config_docs (snd (delete env u st)) = config_docs st \<and>
   config_embeddingsProvider (snd (delete env u st)) = config_embeddingsProvider st \<and>
   curEmbeddingsProviderId (snd (delete env u st)) = curEmbeddingsProviderId st \<and>
   set (sqliteDocs (snd (delete env u st))) \<subseteq> set (sqliteDocs st)"
proof -
  obtain e st1 where L: "deleteFromLance_loop env u (lanceTableNamesSet st) st = (e, st1)"
    by (cases "deleteFromLance_loop env u (lanceTableNamesSet st) st") auto
  from deleteFromLance_loop_frame [of env u "lanceTableNamesSet st" st] L
  have F: "docsIndexingQueue st1 = docsIndexingQueue st"
    "lanceTableNamesSet st1 = lanceTableNamesSet st"
    "config_docs st1 = config_docs st"
    "config_embeddingsProvider st1 = config_embeddingsProvider st"
    "curEmbeddingsProviderId st1 = curEmbeddingsProviderId st"
    "sqliteDocs st1 = sqliteDocs st"
    by simp_all
  show ?thesis
    using L F
    by (cases e)
       (auto simp: delete_def deleteFromLance_def and_then_def deleteFromSqlite_def
          deleteFromConfig_def messenger_send_def)
qed

lemma createLanceDocsTable_frame:
  "docsIndexingQueue (snd (createLanceDocsTable env v n st)) = docsIndexingQueue st \<and>
   lanceTableNamesSet (snd (createLanceDocsTable env v n st)) = lanceTableNamesSet st \<and>
   config_docs (snd (createLanceDocsTable env v n st)) = config_docs st \<and>
   config_embeddingsProvider (snd (createLanceDocsTable env v n st)) =
     config_embeddingsProvider st \<and>
   curEmbeddingsProviderId (snd (createLanceDocsTable env v n st)) = curEmbeddingsProviderId st \<and>
   sqliteDocs (snd (createLanceDocsTable env v n st)) = sqliteDocs st \<and>
   configJsonDocs (snd (createLanceDocsTable env v n st)) = configJsonDocs st \<and>
   effects (snd (createLanceDocsTable env v n st)) = effects st"
  by (simp add: createLanceDocsTable_def Let_def)

lemma open_tracked_frame:
  "docsIndexingQueue (snd (open_tracked n st)) = docsIndexingQueue st \<and>
   config_docs (snd (open_tracked n st)) = config_docs st \<and>
   config_embeddingsProvider (snd (open_tracked n st)) = config_embeddingsProvider st \<and>
   curEmbeddingsProviderId (snd (open_tracked n st)) = curEmbeddingsProviderId st \<and>
   sqliteDocs (snd (open_tracked n st)) = sqliteDocs st \<and>
   configJsonDocs (snd (open_tracked n st)) = configJsonDocs st \<and>
   effects (snd (open_tracked n st)) = effects st \<and>
   lanceTables (snd (open_tracked n st)) = lanceTables st"
  by (simp add: open_tracked_def split: option.splits)

lemma getOrCreateLanceTable_frame:
  "docsIndexingQueue (snd (getOrCreateLanceTable env iv b st)) = docsIndexingQueue st \<and>
   config_docs (snd (getOrCreateLanceTable env iv b st)) = config_docs st \<and>
   config_embeddingsProvider (snd (getOrCreateLanceTable env iv b st)) = config_embeddingsProvider st \<and>
   curEmbeddingsProviderId (snd (getOrCreateLanceTable env iv b st)) = curEmbeddingsProviderId st \<and>
   sqliteDocs (snd (getOrCreateLanceTable env iv b st)) = sqliteDocs st \<and>
   configJsonDocs (snd (getOrCreateLanceTable env iv b st)) = configJsonDocs st \<and>
   effects (snd (getOrCreateLanceTable env iv b st)) = effects st"
proof -
  let ?n = "getLanceTableNameFromEmbeddingsProvider env b st"
  show ?thesis
  proof (cases "lanceTables st ?n = None \<and> iv \<noteq> None")
    case False
    then have "getOrCreateLanceTable env iv b st = open_tracked ?n st"
      by (auto simp: getOrCreateLanceTable_def Let_def)
    then show ?thesis using open_tracked_frame [of ?n st] by simp
  next
    case True
    then obtain v where v: "iv = Some v" by auto
    obtain e st1 where C: "createLanceDocsTable env v ?n st = (e, st1)"
      by (cases "createLanceDocsTable env v ?n st") auto
    from createLanceDocsTable_frame [of env v ?n st] C
    have F: "docsIndexingQueue st1 = docsIndexingQueue st"
      "config_docs st1 = config_docs st"
      "config_embeddingsProvider st1 = config_embeddingsProvider st"
      "curEmbeddingsProviderId st1 = curEmbeddingsProviderId st"
      "sqliteDocs st1 = sqliteDocs st"
      "configJsonDocs st1 = configJsonDocs st"
      "effects st1 = effects st"
      by simp_all
    from True v C
    have G: "getOrCreateLanceTable env iv b st =
        (case e of Some err \<Rightarrow> (Inl err, st1) | None \<Rightarrow> open_tracked ?n st1)"
      by (cases e) (simp_all add: getOrCreateLanceTable_def Let_def)
    show ?thesis
      using F open_tracked_frame [of ?n st1] by (cases e) (simp_all add: G)
  qed
qed

lemma table_add_frame:
  "docsIndexingQueue (snd (table_add env n rows st)) = docsIndexingQueue st \<and>
   lanceTableNamesSet (snd (table_add env n rows st)) = lanceTableNamesSet st \<and>
   config_docs (snd (table_add env n rows st)) = config_docs st \<and>
   config_embeddingsProvider (snd (table_add env n rows st)) = config_embeddingsProvider st \<and>
   curEmbeddingsProviderId (snd (table_add env n rows st)) = curEmbeddingsProviderId st \<and>
   sqliteDocs (snd (table_add env n rows st)) = sqliteDocs st \<and>
   configJsonDocs (snd (table_add env n rows st)) = configJsonDocs st \<and>
   effects (snd (table_add env n rows st)) = effects st"
  by (simp add: table_add_def split: option.splits)

lemma addToLance_frame:
  "docsIndexingQueue (snd (addToLance env params st)) = docsIndexingQueue st \<and>
   config_docs (snd (addToLance env params st)) = config_docs st \<and>
   config_embeddingsProvider (snd (addToLance env params st)) = config_embeddingsProvider st \<and>
   curEmbeddingsProviderId (snd (addToLance env params st)) = curEmbeddingsProviderId st \<and>
   sqliteDocs (snd (addToLance env params st)) = sqliteDocs st \<and>
   configJsonDocs (snd (addToLance env params st)) = configJsonDocs st \<and>
   effects (snd (addToLance env params st)) = effects st"
proof -
  obtain r st1 where G: "getOrCreateLanceTable env (js_index (params_embeddings params) 0)
      (isPreIndexedDoc env (startUrl (siteIndexingConfig params))) st = (r, st1)"
    by (cases "getOrCreateLanceTable env (js_index (params_embeddings params) 0)
      (isPreIndexedDoc env (startUrl (siteIndexingConfig params))) st") auto
  from getOrCreateLanceTable_frame [of env "js_index (params_embeddings params) 0"
      "isPreIndexedDoc env (startUrl (siteIndexingConfig params))" st] G
  have F: "docsIndexingQueue st1 = docsIndexingQueue st"
    "config_docs st1 = config_docs st"
    "config_embeddingsProvider st1 = config_embeddingsProvider st"
    "curEmbeddingsProviderId st1 = curEmbeddingsProviderId st"
    "sqliteDocs st1 = sqliteDocs st"
    "configJsonDocs st1 = configJsonDocs st"
    "effects st1 = effects st"
    by simp_all
  show ?thesis
    using G F table_add_frame [of env _ _ st1]
    by (cases r) (simp_all add: addToLance_def Let_def)
qed

lemma add_frame:
  "docsIndexingQueue (snd (add env params st)) = docsIndexingQueue st \<and>
   config_docs (snd (add env params st)) = config_docs st \<and>
   config_embeddingsProvider (snd (add env params st)) = config_embeddingsProvider st \<and>
   curEmbeddingsProviderId (snd (add env params st)) = curEmbeddingsProviderId st \<and>
   effects (snd (add env params st)) = effects st \<and>
   set (sqliteDocs (snd (add env params st))) \<subseteq>
     insert (sqlite_row_of env params) (set (sqliteDocs st))"
proof -
  obtain e st1 where A: "addToLance env params st = (e, st1)"
    by (cases "addToLance env params st") auto
  from addToLance_frame [of env params st] A
  have F: "docsIndexingQueue st1 = docsIndexingQueue st"
    "config_docs st1 = config_docs st"
    "config_embeddingsProvider st1 = config_embeddingsProvider st"
    "curEmbeddingsProviderId st1 = curEmbeddingsProviderId st"
    "sqliteDocs st1 = sqliteDocs st"
    "effects st1 = effects st"
    by simp_all
  show ?thesis
    using A F
    by (cases e)
       (auto simp: add_def and_then_def addToSqlite_def addToConfig_def Let_def sqlite_row_of_def)
qed

lemma indexAndAdd_enqueued_frame:
  "config_docs (snd (snd (indexAndAdd_enqueued env c r st))) = config_docs st \<and>
   config_embeddingsProvider (snd (snd (indexAndAdd_enqueued env c r st))) =
     config_embeddingsProvider st \<and>
   curEmbeddingsProviderId (snd (snd (indexAndAdd_enqueued env c r st))) =
     curEmbeddingsProviderId st \<and>
   set (sqliteDocs (snd (snd (indexAndAdd_enqueued env c r st)))) \<subseteq>
     insert \<lparr>doc_title = stored_text env (title c), doc_startUrl = stored_text env (startUrl c),
             doc_favicon = fetchFavicon c\<rparr>
       (set (sqliteDocs st))"
proof (cases "parseUrl env (startUrl c)")
  case None
  then show ?thesis by (auto simp: indexAndAdd_enqueued_def)
next
  case (Some href)
  let ?st1 = "st\<lparr>docsIndexingQueue := insert (startUrl c) (docsIndexingQueue st)\<rparr>"
  let ?params = "\<lparr>siteIndexingConfig = c, params_chunks = fst (snd (crawl_and_embed env c st)),
     params_embeddings = snd (snd (crawl_and_embed env c st)), params_favicon = fetchFavicon c\<rparr>"
  let ?row = "\<lparr>doc_title = stored_text env (title c), doc_startUrl = stored_text env (startUrl c),
     doc_favicon = fetchFavicon c\<rparr>"
  obtain e2 s2 where D: "(if r then delete env (startUrl c) ?st1 else (None, ?st1)) = (e2, s2)"
    by (cases "if r then delete env (startUrl c) ?st1 else (None, ?st1)") auto
  have F2: "config_docs s2 = config_docs st"
    "config_embeddingsProvider s2 = config_embeddingsProvider st"
    "curEmbeddingsProviderId s2 = curEmbeddingsProviderId st"
    "set (sqliteDocs s2) \<subseteq> set (sqliteDocs st)"
    using D delete_frame [of env "startUrl c" ?st1] by (auto split: if_splits)
  obtain e3 s3 where A: "add env ?params s2 = (e3, s3)"
    by (cases "add env ?params s2") auto
  have row: "sqlite_row_of env ?params = ?row"
    by (simp add: sqlite_row_of_def fetchFavicon_def stored_text_favicon)
  have F3: "config_docs s3 = config_docs st"
    "config_embeddingsProvider s3 = config_embeddingsProvider st"
    "curEmbeddingsProviderId s3 = curEmbeddingsProviderId st"
    "set (sqliteDocs s3) \<subseteq> insert ?row (set (sqliteDocs st))"
    using A add_frame [of env ?params s2] F2 row by auto
  show ?thesis
  proof (cases "snd (snd (crawl_and_embed env c st)) = []")
    case True
    with Some show ?thesis by (auto simp: indexAndAdd_enqueued_def Let_def)
  next
    case False
    show ?thesis
      using Some False D A F2 F3
      by (cases r; cases e2; cases e3)
         (auto simp: indexAndAdd_enqueued_def Let_def messenger_send_def)
  qed
qed

lemma indexAndAdd_frame:
  "config_docs (snd (snd (indexAndAdd env c r st))) = config_docs st \<and>
   config_embeddingsProvider (snd (snd (indexAndAdd env c r st))) = config_embeddingsProvider st \<and>
   curEmbeddingsProviderId (snd (snd (indexAndAdd env c r st))) = curEmbeddingsProviderId st \<and>
   set (sqliteDocs (snd (snd (indexAndAdd env c r st)))) \<subseteq>
     insert \<lparr>doc_title = stored_text env (title c), doc_startUrl = stored_text env (startUrl c),
             doc_favicon = fetchFavicon c\<rparr>
       (set (sqliteDocs st))"
proof (cases "startUrl c \<in> docsIndexingQueue st \<or> (\<not> r \<and> has env st (startUrl c))")
  case True
  then show ?thesis by (auto simp: indexAndAdd_def indexAndAdd_checked_def)
next
  case False
  then have "indexAndAdd env c r st = indexAndAdd_enqueued env c r st"
    by (auto simp: indexAndAdd_def indexAndAdd_checked_def)
  then show ?thesis using indexAndAdd_enqueued_frame [of env c r st] by simp
qed

subsection \<open>Deleting a site\<close>








subsection \<open>The steps of a provider switch\<close>

lemma run_steps_keeps_provider_id:
  "list_all (\<lambda>s. \<forall>i. s \<noteq> UpdateProviderId i) ss \<Longrightarrow>
   curEmbeddingsProviderId (snd (run_steps env ss st)) = curEmbeddingsProviderId st"
proof (induction ss arbitrary: st)
  case Nil
  show ?case by simp
next
  case (Cons s ss)
  obtain e st1 where R: "run_step env s st = (e, st1)"
    by (cases "run_step env s st") auto
  have keep: "curEmbeddingsProviderId st1 = curEmbeddingsProviderId st"
  proof (cases s)
    case (DeleteSite u)
    with R delete_frame [of env u st] show ?thesis by simp
  next
    case (IndexSite doc)
    with R indexAndAdd_frame [of env doc False st] show ?thesis by simp
  next
    case (UpdateProviderId i)
    with Cons.prems show ?thesis by simp
  qed
  show ?case
  proof (cases e)
    case None
    from Cons.prems have "list_all (\<lambda>s. \<forall>i. s \<noteq> UpdateProviderId i) ss"
      by simp
    from Cons.IH [OF this, of st1] R None keep show ?thesis by simp
  next
    case (Some err)
    with R keep show ?thesis by simp
  qed
qed

lemma site_steps_no_update:
  "list_all (\<lambda>s. \<forall>i. s \<noteq> UpdateProviderId i)
     (concat (map (\<lambda>doc. [DeleteSite (startUrl doc), IndexSite doc]) docs))"
  by (induction docs) simp_all

lemma run_steps_append:
  "run_steps env (xs @ ys) st =
     (case run_steps env xs st of
        (Some e, st1) \<Rightarrow> (Some e, st1)
      | (None, st1) \<Rightarrow> run_steps env ys st1)"
  by (induction xs arbitrary: st) (auto split: prod.splits option.splits)

lemma example_switch:
  "reindexDocsOnNewEmbeddingsProvider example_env (config_embeddingsProvider example_state)
     example_state =
   (None, stored_state\<lparr>curEmbeddingsProviderId := Some ''openai:x'',
            configJsonDocs := Some [],
            effects := [MessengerSend ''refreshSubmenuItems'', MessengerSend ''refreshSubmenuItems'']\<rparr>)"
  apply (simp add: reindexDocsOnNewEmbeddingsProvider_def reindex_steps_def example_state_def
      delete_def deleteFromLance_def deleteFromSqlite_def deleteFromConfig_def messenger_send_def
      and_then_def example_config_def example_env_def)
  apply (simp add: indexAndAdd_def indexAndAdd_checked_def has_def)
  apply (simp add: indexAndAdd_enqueued_def example_parseUrl_example
      example_collect [unfolded example_env_def example_config_def] Let_def)
  apply (simp add: eval_defs example_chunk_def stored_state_def example_rows_def example_state_def example_config_def numeral_3_eq_3)
  done

subsection \<open>Retrieval\<close>

lemma hasIndexedDoc_frame:
  "sqliteDocs st' = sqliteDocs st \<Longrightarrow> hasIndexedDoc env st' u = hasIndexedDoc env st u"
  by (simp add: hasIndexedDoc_def)

lemma open_tracked_Inr:
  "open_tracked n st = (Inr m, st1) \<Longrightarrow>
   m = n \<and> lanceTables st n \<noteq> None \<and> lanceTables st1 = lanceTables st \<and>
   lanceTableNamesSet st1 = set_add n (lanceTableNamesSet st)"
  by (auto simp: open_tracked_def split: option.splits)

lemma open_tracked_existing:
  "lanceTables st n = Some t \<Longrightarrow>
   open_tracked n st = (Inr n, st\<lparr>lanceTableNamesSet := set_add n (lanceTableNamesSet st)\<rparr>)"
  by (simp add: open_tracked_def)

lemma getOrCreateLanceTable_existing:
  "lanceTables st (getLanceTableNameFromEmbeddingsProvider env b st) = Some t \<Longrightarrow>
   getOrCreateLanceTable env iv b st =
     (Inr (getLanceTableNameFromEmbeddingsProvider env b st),
      st\<lparr>lanceTableNamesSet :=
           set_add (getLanceTableNameFromEmbeddingsProvider env b st) (lanceTableNamesSet st)\<rparr>)"
  by (simp add: getOrCreateLanceTable_def Let_def open_tracked_existing)

lemma createLanceDocsTable_tables:
  "createLanceDocsTable env v n st = (e, st1) \<Longrightarrow>
   (e \<noteq> None \<longrightarrow> st1 = st) \<and>
   (e = None \<longrightarrow> lanceTables st1 = (lanceTables st)(n \<mapsto> \<lparr>dimension = length v, table_rows = []\<rparr>))"
  by (auto simp: createLanceDocsTable_def Let_def split: if_splits)

lemma getOrCreateLanceTable_Inr:
  assumes "getOrCreateLanceTable env iv b st = (Inr m, st1)"
  shows "m = getLanceTableNameFromEmbeddingsProvider env b st \<and>
     lanceTables st1 m \<noteq> None \<and> tables_kept st st1 \<and>
     lanceTableNamesSet st1 = set_add m (lanceTableNamesSet st) \<and>
     (\<forall>v. iv = Some v \<and> lanceTables st m = None \<longrightarrow>
        lanceTables st1 m = Some \<lparr>dimension = length v, table_rows = []\<rparr>) \<and>
     (lanceTables st m \<noteq> None \<longrightarrow> lanceTables st1 = lanceTables st)"
proof -
  let ?n = "getLanceTableNameFromEmbeddingsProvider env b st"
  show ?thesis
  proof (cases "lanceTables st ?n = None \<and> iv \<noteq> None")
    case False
    then have "getOrCreateLanceTable env iv b st = open_tracked ?n st"
      by (auto simp: getOrCreateLanceTable_def Let_def)
    with assms have "open_tracked ?n st = (Inr m, st1)"
      by simp
    from open_tracked_Inr [OF this] False show ?thesis
      by (auto simp: tables_kept_def)
  next
    case True
    then obtain v where v: "iv = Some v" by auto
    obtain e s where C: "createLanceDocsTable env v ?n st = (e, s)"
      by (cases "createLanceDocsTable env v ?n st") auto
    from True v C assms have e: "e = None" and O: "open_tracked ?n s = (Inr m, st1)"
      by (cases e; simp add: getOrCreateLanceTable_def Let_def)+
    from createLanceDocsTable_tables [OF C] e
    have T: "lanceTables s = (lanceTables st)(?n \<mapsto> \<lparr>dimension = length v, table_rows = []\<rparr>)"
      by simp
    from createLanceDocsTable_frame [of env v ?n st] C
    have N: "lanceTableNamesSet s = lanceTableNamesSet st"
      by simp
    from open_tracked_Inr [OF O] T N True v show ?thesis
      by (auto simp: tables_kept_def)
  qed
qed

lemma getOrCreateLanceTable_Inl:
  "getOrCreateLanceTable env iv b st = (Inl e, st1) \<Longrightarrow> lanceTables st1 = lanceTables st \<and>
     lanceTableNamesSet st1 = lanceTableNamesSet st"
  by (auto simp: getOrCreateLanceTable_def Let_def open_tracked_def createLanceDocsTable_def
      split: option.splits if_splits)

lemma tables_kept_refl: "tables_kept st st"
  by (simp add: tables_kept_def)

lemma tables_kept_trans: "tables_kept a b \<Longrightarrow> tables_kept b c \<Longrightarrow> tables_kept a c"
  unfolding tables_kept_def by (metis (no_types, lifting))

lemma tables_kept_cong: "lanceTables a = lanceTables b \<Longrightarrow> tables_kept st a = tables_kept st b"
  by (simp add: tables_kept_def)

lemma tables_kept_getOrCreateLanceTable:
  "tables_kept st (snd (getOrCreateLanceTable env iv b st))"
proof (cases "getOrCreateLanceTable env iv b st")
  case (Pair r st1)
  show ?thesis
  proof (cases r)
    case (Inl e)
    with Pair getOrCreateLanceTable_Inl [of env iv b st e st1] show ?thesis
      by (simp add: tables_kept_def)
  next
    case (Inr m)
    with Pair getOrCreateLanceTable_Inr [of env iv b st m st1] show ?thesis
      by simp
  qed
qed

lemma tables_kept_table_add: "tables_kept st (snd (table_add env n rows st))"
  by (auto simp: table_add_def tables_kept_def split: option.splits)

lemma tables_kept_addToLance: "tables_kept st (snd (addToLance env params st))"
proof -
  let ?G = "getOrCreateLanceTable env (js_index (params_embeddings params) 0)
      (isPreIndexedDoc env (startUrl (siteIndexingConfig params))) st"
  obtain r st1 where G: "?G = (r, st1)"
    by (cases ?G) auto
  from tables_kept_getOrCreateLanceTable [of st env "js_index (params_embeddings params) 0"
      "isPreIndexedDoc env (startUrl (siteIndexingConfig params))"] G
  have K: "tables_kept st st1"
    by simp
  show ?thesis
  proof (cases r)
    case (Inl e)
    with G K show ?thesis by (simp add: addToLance_def Let_def)
  next
    case (Inr m)
    with G have "snd (addToLance env params st) =
        snd (table_add env m (map (row_of_chunk (siteIndexingConfig params)
          (params_embeddings params)) (enumerate 0 (params_chunks params))) st1)"
      by (simp add: addToLance_def Let_def)
    with K tables_kept_table_add [of st1 env m] show ?thesis
      by (auto intro: tables_kept_trans)
  qed
qed

lemma add_tables:
  "lanceTables (snd (add env params st)) = lanceTables (snd (addToLance env params st))"
  by (cases "addToLance env params st")
     (auto simp: add_def and_then_def addToSqlite_def addToConfig_def Let_def
        split: option.splits)

lemma tables_kept_add: "tables_kept st (snd (add env params st))"
  using tables_kept_addToLance [of st env params]
  by (simp add: tables_kept_def add_tables)

lemma fetchAndAdd_effects:
  "effects (snd (fetchAndAddPreIndexedDocEmbeddings env t st)) =
     effects st @ [S3Download (provider_id (getEmbeddingsProvider env True st)) t]"
  by (simp add: fetchAndAddPreIndexedDocEmbeddings_def Let_def add_frame split: option.splits)

lemma fetchAndAdd_frame:
  "config_embeddingsProvider (snd (fetchAndAddPreIndexedDocEmbeddings env t st)) =
     config_embeddingsProvider st"
  by (simp add: fetchAndAddPreIndexedDocEmbeddings_def Let_def add_frame split: option.splits)

lemma tables_kept_fetchAndAdd:
  "tables_kept st (snd (fetchAndAddPreIndexedDocEmbeddings env t st))"
proof -
  let ?st1 = "st\<lparr>effects := effects st @
      [S3Download (provider_id (getEmbeddingsProvider env True st)) t]\<rparr>"
  have "tables_kept st ?st1"
    by (simp add: tables_kept_def)
  moreover have "tables_kept ?st1 (snd (add env params ?st1))" for params
    by (rule tables_kept_add)
  ultimately show ?thesis
    by (auto simp: fetchAndAddPreIndexedDocEmbeddings_def Let_def split: option.splits
        intro: tables_kept_trans)
qed

lemma after_search_fields:
  "sqliteDocs (after_search env u v k st) = sqliteDocs st"
  "config_embeddingsProvider (after_search env u v k st) = config_embeddingsProvider st"
  "effects (after_search env u v k st) =
     effects st @
       (if table_opened env u v st
        then [LanceSearch (getLanceTableNameFromEmbeddingsProvider env (isPreIndexedDoc env u) st)
                u k]
        else [])"
  "tables_kept st (after_search env u v k st)"
proof -
  let ?G = "getOrCreateLanceTable env (Some v) (isPreIndexedDoc env u) st"
  obtain r st1 where G: "?G = (r, st1)"
    by (cases ?G) auto
  from getOrCreateLanceTable_frame [of env "Some v" "isPreIndexedDoc env u" st] G
  have F: "sqliteDocs st1 = sqliteDocs st"
    "config_embeddingsProvider st1 = config_embeddingsProvider st"
    "effects st1 = effects st"
    by simp_all
  from tables_kept_getOrCreateLanceTable [of st env "Some v" "isPreIndexedDoc env u"] G
  have K: "tables_kept st st1"
    by simp
  have name: "r = Inr m \<Longrightarrow>
      m = getLanceTableNameFromEmbeddingsProvider env (isPreIndexedDoc env u) st" for m
    using G getOrCreateLanceTable_Inr [of env "Some v" "isPreIndexedDoc env u" st m st1] by simp
  show "sqliteDocs (after_search env u v k st) = sqliteDocs st"
    using G F by (cases r) (simp_all add: after_search_def)
  show "config_embeddingsProvider (after_search env u v k st) = config_embeddingsProvider st"
    using G F by (cases r) (simp_all add: after_search_def)
  show "effects (after_search env u v k st) =
     effects st @
       (if table_opened env u v st
        then [LanceSearch (getLanceTableNameFromEmbeddingsProvider env (isPreIndexedDoc env u) st)
                u k]
        else [])"
    using G F name by (cases r) (simp_all add: after_search_def table_opened_def)
  show "tables_kept st (after_search env u v k st)"
    using G K by (cases r) (simp_all add: after_search_def tables_kept_def)
qed

lemma retrieveChunks_unfold:
  "retrieveChunks env u v k isRetry st =
     (case local_search env u v k st of
        Inl e \<Rightarrow> (Inl e, after_search env u v k st)
      | Inr docs \<Rightarrow>
          if \<not> hasIndexedDoc env st u \<and> length docs = 0
          then (case preIndexedDocs env u of
                  None \<Rightarrow> (Inr [], after_search env u v k st)
                | Some preIndexedDoc \<Rightarrow>
                    if isRetry then (Inr [], after_search env u v k st)
                    else (case fetchAndAddPreIndexedDocEmbeddings env (title preIndexedDoc)
                                 (after_search env u v k st) of
                            (Some e, st3) \<Rightarrow> (Inl e, st3)
                          | (None, st3) \<Rightarrow> retrieveChunks env u v k True st3))
          else (Inr (map chunk_of_row docs), after_search env u v k st))"
proof -
  let ?G = "getOrCreateLanceTable env (Some v) (isPreIndexedDoc env u) st"
  obtain r st1 where G: "?G = (r, st1)"
    by (cases ?G) auto
  show ?thesis
  proof (cases r)
    case (Inl e)
    with G show ?thesis
      by (subst retrieveChunks.simps) (simp add: local_search_def after_search_def)
  next
    case (Inr table)
    from getOrCreateLanceTable_frame [of env "Some v" "isPreIndexedDoc env u" st] G
    have "sqliteDocs st1 = sqliteDocs st"
      by simp
    then have H: "hasIndexedDoc env (st1\<lparr>effects := effects st1 @ [LanceSearch table u k]\<rparr>) u =
        hasIndexedDoc env st u"
      by (simp add: hasIndexedDoc_def)
    show ?thesis
      apply (subst retrieveChunks.simps)
      apply (simp only: G Inr prod.case sum.case Let_def H local_search_def after_search_def)
      done
  qed
qed

lemma retrieveChunks_retry: "retrieveChunks env u v k True st = search_only env u v k st"
  by (subst retrieveChunks_unfold) (simp add: search_only_def split: option.splits sum.splits)

lemma retrieveChunks_local:
  assumes "\<not> fallback_needed env u v k st"
  shows "retrieveChunks env u v k isRetry st = search_only env u v k st"
proof (cases "local_search env u v k st")
  case (Inl e)
  then show ?thesis by (subst retrieveChunks_unfold) (simp add: search_only_def)
next
  case (Inr docs)
  show ?thesis
  proof (cases "\<not> hasIndexedDoc env st u \<and> length docs = 0")
    case False
    with Inr show ?thesis by (subst retrieveChunks_unfold) (auto simp: search_only_def)
  next
    case True
    with assms Inr have "preIndexedDocs env u = None"
      by (simp add: fallback_needed_def isPreIndexedDoc_def)
    with True Inr show ?thesis by (subst retrieveChunks_unfold) (simp add: search_only_def)
  qed
qed

lemma retrieveChunks_fallback:
  assumes "fallback_needed env u v k st"
  shows "retrieveChunks env u v k False st =
     (case fallback_result env u v k st of
        (Some e, st3) \<Rightarrow> (Inl e, st3)
      | (None, st3) \<Rightarrow> search_only env u v k st3)"
proof -
  from assms obtain d where d: "preIndexedDocs env u = Some d"
    by (auto simp: fallback_needed_def isPreIndexedDoc_def)
  from assms d show ?thesis
    by (subst retrieveChunks_unfold)
       (simp add: fallback_needed_def fallback_result_def retrieveChunks_retry
          split: prod.splits option.splits)
qed

lemma downloads_after_search: "downloads (after_search env u v k st) = downloads st"
  by (simp add: downloads_def after_search_fields)

lemma searches_after_search:
  "searches (after_search env u v k st) =
     searches st + (if table_opened env u v st then 1 else 0)"
  by (simp add: searches_def after_search_fields)

lemma downloads_search_only: "downloads (snd (search_only env u v k st)) = downloads st"
  by (simp add: search_only_def downloads_after_search split: sum.splits)

lemma searches_search_only:
  "searches (snd (search_only env u v k st)) =
     searches st + (if table_opened env u v st then 1 else 0)"
  by (simp add: search_only_def searches_after_search split: sum.splits)

lemma fallback_result_effects:
  assumes "isPreIndexedDoc env u"
  shows "downloads (snd (fallback_result env u v k st)) = downloads st + 1"
    and "searches (snd (fallback_result env u v k st)) =
           searches st + (if table_opened env u v st then 1 else 0)"
proof -
  from assms obtain d where d: "preIndexedDocs env u = Some d"
    by (auto simp: isPreIndexedDoc_def)
  show "downloads (snd (fallback_result env u v k st)) = downloads st + 1"
    using downloads_after_search [of env u v k st]
    by (simp add: fallback_result_def d downloads_def fetchAndAdd_effects)
  show "searches (snd (fallback_result env u v k st)) =
           searches st + (if table_opened env u v st then 1 else 0)"
    using searches_after_search [of env u v k st]
    by (simp add: fallback_result_def d searches_def fetchAndAdd_effects)
qed

text \<open>A search that answered is answered again in every later state that kept the
  tables and the configured provider.\<close>

lemma local_search_Inr:
  assumes "local_search env u v k st = Inr docs"
  shows "table_opened env u v st \<and> k \<noteq> 0 \<and> starturl_filter env u \<noteq> None \<and>
     (\<exists>t. lanceTables (after_search env u v k st)
             (getLanceTableNameFromEmbeddingsProvider env (isPreIndexedDoc env u) st) = Some t \<and>
          dimension t = length v)"
proof -
  let ?G = "getOrCreateLanceTable env (Some v) (isPreIndexedDoc env u) st"
  let ?n = "getLanceTableNameFromEmbeddingsProvider env (isPreIndexedDoc env u) st"
  obtain r st1 where G: "?G = (r, st1)"
    by (cases ?G) auto
  from assms G obtain m where m: "r = Inr m" and S: "search_table env m v k u st1 = Inr docs"
    by (cases r) (simp_all add: local_search_def)
  from getOrCreateLanceTable_Inr [of env "Some v" "isPreIndexedDoc env u" st m st1] G m
  have n: "m = ?n" by simp
  from S obtain t where t: "lanceTables st1 m = Some t"
    by (auto simp: search_table_def split: option.splits)
  from S t have "k \<noteq> 0" "dimension t = length v" "starturl_filter env u \<noteq> None"
    by (auto simp: search_table_def split: if_splits option.splits)
  moreover have "lanceTables (after_search env u v k st) ?n = Some t"
    using G m n t by (simp add: after_search_def)
  moreover have "table_opened env u v st"
    using G m by (simp add: table_opened_def)
  ultimately show ?thesis by auto
qed

lemma local_search_again:
  assumes "lanceTables st (getLanceTableNameFromEmbeddingsProvider env (isPreIndexedDoc env u) st)
      = Some t"
    and "dimension t = length v" and "k \<noteq> 0" and "starturl_filter env u \<noteq> None"
  shows "table_opened env u v st \<and> (\<exists>docs. local_search env u v k st = Inr docs)"
  using assms
  by (auto simp: table_opened_def local_search_def getOrCreateLanceTable_existing
      search_table_def)

lemma table_name_cong:
  "config_embeddingsProvider st' = config_embeddingsProvider st \<Longrightarrow>
   getLanceTableNameFromEmbeddingsProvider env b st' =
   getLanceTableNameFromEmbeddingsProvider env b st"
  by (simp add: getLanceTableNameFromEmbeddingsProvider_def getEmbeddingsProvider_def)

lemma fallback_result_kept:
  "tables_kept (after_search env u v k st) (snd (fallback_result env u v k st)) \<and>
   config_embeddingsProvider (snd (fallback_result env u v k st)) = config_embeddingsProvider st"
  using tables_kept_fetchAndAdd [of "after_search env u v k st" env]
  by (auto simp: fallback_result_def tables_kept_refl fetchAndAdd_frame after_search_fields
      split: option.splits)

lemma retry_answers:
  assumes "local_search env u v k st = Inr docs"
    and "fallback_result env u v k st = (e, st3)"
  shows "table_opened env u v st3 \<and> (\<exists>docs'. local_search env u v k st3 = Inr docs')"
proof -
  let ?n = "getLanceTableNameFromEmbeddingsProvider env (isPreIndexedDoc env u) st"
  from local_search_Inr [OF assms(1)]
  obtain t where k: "k \<noteq> 0" and f: "starturl_filter env u \<noteq> None"
    and t: "lanceTables (after_search env u v k st) ?n = Some t" and d: "dimension t = length v"
    by blast
  from fallback_result_kept [of env u v k st] assms(2)
  have K: "tables_kept (after_search env u v k st) st3"
    and P: "config_embeddingsProvider st3 = config_embeddingsProvider st"
    by simp_all
  from K t obtain t' where t': "lanceTables st3 ?n = Some t'" and d': "dimension t' = dimension t"
    by (auto simp: tables_kept_def)
  have n: "getLanceTableNameFromEmbeddingsProvider env (isPreIndexedDoc env u) st3 = ?n"
    using P by (rule table_name_cong)
  from t' n have "lanceTables st3
      (getLanceTableNameFromEmbeddingsProvider env (isPreIndexedDoc env u) st3) = Some t'"
    by simp
  from local_search_again [OF this _ k f, of v] d d' show ?thesis
    by simp
qed

lemma add_ok_row:
  assumes "add env params st = (None, st')"
  shows "hasIndexedDoc env st' (startUrl (siteIndexingConfig params))"
proof -
  obtain e s1 where A: "addToLance env params st = (e, s1)"
    by (cases "addToLance env params st") auto
  show ?thesis
    using assms A
    by (cases e)
       (auto simp: add_def and_then_def addToSqlite_def Let_def hasIndexedDoc_def addToConfig_def
          split: if_splits)
qed

lemma fetchAndAdd_ok_row:
  assumes "fetchAndAddPreIndexedDocEmbeddings env t st = (None, st')"
    and "parseUrl env (bundle_url (downloadFromS3 env
           (provider_id (getEmbeddingsProvider env True st)) t)) = Some u"
  shows "hasIndexedDoc env st' u"
proof -
  from assms obtain params s1 where "add env params s1 = (None, st')"
    and "startUrl (siteIndexingConfig params) = u"
    by (auto simp: fetchAndAddPreIndexedDocEmbeddings_def Let_def)
  with add_ok_row [of env params s1 st'] show ?thesis
    by simp
qed

lemma catalog_retrieve:
  "retrieveChunks catalog_env (startUrl catalog_config) [7] 5 False example_state =
     (Inr [\<lparr>digest = ''/p'', filepath = ''/p'', startLine = 0, endLine = 1, chunk_index = 0,
            content = ''P'', otherMetadata_title = Some ''Pre''\<rparr>],
      example_state\<lparr>
        lanceTableNamesSet := [''docstjs''],
        sqliteDocs := [\<lparr>doc_title = ''Pre'', doc_startUrl = ''https://pre.example/'',
                        doc_favicon = favicon_data\<rparr>],
        lanceTables := [''docstjs'' \<mapsto> \<lparr>dimension = 1, table_rows =
          [\<lparr>row_title = ''Pre'', starturl = ''https://pre.example/'', row_content = ''P'',
            path = ''/p'', startline = 0, endline = 1, vector = Some [7]\<rparr>]\<rparr>],
        effects := [LanceSearch ''docstjs'' ''https://pre.example/'' 5, S3Download ''tjs'' ''Pre'',
                    LanceSearch ''docstjs'' ''https://pre.example/'' 5]\<rparr>)"
  apply (subst retrieveChunks.simps)
  apply (simp add: eval_defs catalog_env_def example_env_def example_state_def search_table_def
      fetchAndAddPreIndexedDocEmbeddings_def catalog_config_def example_chunk_def)
  apply (subst retrieveChunks.simps)
  apply (simp add: eval_defs search_table_def chunk_of_row_def)
  done

lemma bare_first_retrieve:
  "retrieveChunks bare_catalog_env ''https://pre.example'' [7] 5 False example_state =
     (Inr [], bare_after_first)"
  apply (subst retrieveChunks.simps)
  apply (simp add: eval_defs bare_catalog_env_def example_env_def example_state_def
      search_table_def fetchAndAddPreIndexedDocEmbeddings_def bare_catalog_config_def
      example_chunk_def)
  apply (subst retrieveChunks.simps)
  apply (simp add: eval_defs search_table_def chunk_of_row_def bare_after_first_def
      example_state_def example_config_def)
  done

lemma bare_second_retrieve:
  "retrieveChunks bare_catalog_env ''https://pre.example'' [7] 5 False bare_after_first =
     (Inl (SqliteUniqueConstraint ''https://pre.example/''),
      bare_after_first\<lparr>
        lanceTables := [''docstjs'' \<mapsto> \<lparr>dimension = 1, table_rows = []\<rparr>,
          ''docsopenaix'' \<mapsto> \<lparr>dimension = 1, table_rows =
          [\<lparr>row_title = ''Pre'', starturl = ''https://pre.example/'', row_content = ''P'',
            path = ''/p'', startline = 0, endline = 1, vector = Some [7]\<rparr>,
           \<lparr>row_title = ''Pre'', starturl = ''https://pre.example/'', row_content = ''P'',
            path = ''/p'', startline = 0, endline = 1, vector = Some [7]\<rparr>]\<rparr>],
        effects := effects bare_after_first @
          [LanceSearch ''docstjs'' ''https://pre.example'' 5, S3Download ''tjs'' ''Pre'']\<rparr>)"
  apply (subst retrieveChunks.simps)
  apply (simp add: eval_defs bare_catalog_env_def example_env_def example_state_def
      search_table_def fetchAndAddPreIndexedDocEmbeddings_def bare_catalog_config_def
      example_chunk_def bare_after_first_def)
  done

subsection \<open>Tracked tables exist in every state the service reaches\<close>

lemma tracked_tables_exist_initial:
  "lanceTableNamesSet st = [] \<Longrightarrow> tracked_tables_exist st"
  by (simp add: tracked_tables_exist_def)

lemma tracked_step:
  assumes "tracked_tables_exist st" and "tables_kept st st'"
    and "\<forall>n \<in> set (lanceTableNamesSet st'). n \<in> set (lanceTableNamesSet st) \<or> lanceTables st' n \<noteq> None"
  shows "tracked_tables_exist st'"
  using assms unfolding tracked_tables_exist_def tables_kept_def list_all_iff
  by (metis option.distinct(1) option.exhaust)

lemma tracked_getOrCreateLanceTable:
  assumes "tracked_tables_exist st"
  shows "tracked_tables_exist (snd (getOrCreateLanceTable env iv b st))"
proof (cases "getOrCreateLanceTable env iv b st")
  case (Pair r st1)
  show ?thesis
  proof (cases r)
    case (Inl e)
    with Pair getOrCreateLanceTable_Inl [of env iv b st e st1] assms show ?thesis
      by (simp add: tracked_tables_exist_def)
  next
    case (Inr m)
    with Pair getOrCreateLanceTable_Inr [of env iv b st m st1]
    have "tables_kept st st1" "lanceTables st1 m \<noteq> None"
      "lanceTableNamesSet st1 = set_add m (lanceTableNamesSet st)"
      by auto
    then have "tracked_tables_exist st1"
      by (intro tracked_step [OF assms]) (auto simp: set_add_def)
    with Pair show ?thesis by simp
  qed
qed

lemma tracked_table_add:
  "tracked_tables_exist st \<Longrightarrow> tracked_tables_exist (snd (table_add env n rows st))"
  by (auto simp: table_add_def tracked_tables_exist_def list_all_iff split: option.splits)

lemma tracked_addToLance:
  assumes "tracked_tables_exist st"
  shows "tracked_tables_exist (snd (addToLance env params st))"
proof -
  let ?G = "getOrCreateLanceTable env (js_index (params_embeddings params) 0)
      (isPreIndexedDoc env (startUrl (siteIndexingConfig params))) st"
  obtain r st1 where G: "?G = (r, st1)"
    by (cases ?G) auto
  from tracked_getOrCreateLanceTable [OF assms, of env "js_index (params_embeddings params) 0"
      "isPreIndexedDoc env (startUrl (siteIndexingConfig params))"] G
  have T: "tracked_tables_exist st1"
    by simp
  show ?thesis
    using G T tracked_table_add [of st1 env]
    by (cases r) (simp_all add: addToLance_def Let_def)
qed

lemma tracked_add:
  assumes "tracked_tables_exist st"
  shows "tracked_tables_exist (snd (add env params st))"
proof -
  obtain e st1 where A: "addToLance env params st = (e, st1)"
    by (cases "addToLance env params st") auto
  from tracked_addToLance [OF assms, of env params] A
  have T: "tracked_tables_exist st1"
    by simp
  show ?thesis
    using A T
    by (cases e)
       (auto simp: add_def and_then_def addToSqlite_def addToConfig_def Let_def
          tracked_tables_exist_def)
qed

lemma tracked_deleteFromLance_loop:
  "list_all (\<lambda>n. lanceTables st n \<noteq> None) ms \<Longrightarrow>
   list_all (\<lambda>n. lanceTables (snd (deleteFromLance_loop env u ns st)) n \<noteq> None) ms"
proof (induction ns arbitrary: st)
  case Nil
  then show ?case by simp
next
  case (Cons n ns)
  show ?case
  proof (cases "lanceTables st n")
    case None
    with Cons.prems show ?thesis by simp
  next
    case (Some t)
    show ?thesis
    proof (cases "starturl_filter env u")
      case None
      with Some Cons.prems show ?thesis by simp
    next
      case (Some matches)
      let ?st1 = "st\<lparr>lanceTables := (lanceTables st)(n \<mapsto>
          t\<lparr>table_rows := filter (\<lambda>r. \<not> matches r) (table_rows t)\<rparr>)\<rparr>"
      have "list_all (\<lambda>m. lanceTables ?st1 m \<noteq> None) ms"
        using Cons.prems by (auto simp: list_all_iff)
      from Cons.IH [OF this] Some \<open>lanceTables st n = Some t\<close> show ?thesis
        by simp
    qed
  qed
qed

lemma tracked_delete:
  assumes "tracked_tables_exist st"
  shows "tracked_tables_exist (snd (delete env u st))"
proof -
  let ?L = "deleteFromLance_loop env u (lanceTableNamesSet st) st"
  obtain e st1 where L: "?L = (e, st1)"
    by (cases ?L) auto
  from assms have "list_all (\<lambda>n. lanceTables st n \<noteq> None) (lanceTableNamesSet st)"
    by (simp add: tracked_tables_exist_def)
  from tracked_deleteFromLance_loop [OF this, of env u "lanceTableNamesSet st"] L
    deleteFromLance_loop_frame [of env u "lanceTableNamesSet st" st]
  have T: "tracked_tables_exist st1"
    by (simp add: tracked_tables_exist_def)
  show ?thesis
    using L T
    by (cases e)
       (auto simp: delete_def deleteFromLance_def and_then_def deleteFromSqlite_def
          deleteFromConfig_def messenger_send_def tracked_tables_exist_def)
qed

lemma tracked_indexAndAdd:
  assumes "tracked_tables_exist st"
  shows "tracked_tables_exist (snd (snd (indexAndAdd env c r st)))"
proof (cases "startUrl c \<in> docsIndexingQueue st \<or> (\<not> r \<and> has env st (startUrl c))")
  case True
  with assms show ?thesis by (auto simp: indexAndAdd_def indexAndAdd_checked_def)
next
  case False
  let ?st1 = "st\<lparr>docsIndexingQueue := insert (startUrl c) (docsIndexingQueue st)\<rparr>"
  let ?params = "\<lparr>siteIndexingConfig = c, params_chunks = fst (snd (crawl_and_embed env c st)),
     params_embeddings = snd (snd (crawl_and_embed env c st)), params_favicon = fetchFavicon c\<rparr>"
  have T1: "tracked_tables_exist ?st1"
    using assms by (simp add: tracked_tables_exist_def)
  obtain e2 s2 where D: "(if r then delete env (startUrl c) ?st1 else (None, ?st1)) = (e2, s2)"
    by (cases "if r then delete env (startUrl c) ?st1 else (None, ?st1)") auto
  have T2: "tracked_tables_exist s2"
    using D T1 tracked_delete [OF T1, of env "startUrl c"] by (auto split: if_splits)
  obtain e3 s3 where A: "add env ?params s2 = (e3, s3)"
    by (cases "add env ?params s2") auto
  have T3: "tracked_tables_exist s3"
    using A tracked_add [OF T2, of env ?params] by simp
  have T4: "tracked_tables_exist (messenger_send env ''refreshSubmenuItems''
      (s3\<lparr>docsIndexingQueue := docsIndexingQueue s3 - {startUrl c}\<rparr>))"
    using T3 by (simp add: tracked_tables_exist_def messenger_send_def)
  from False have run: "indexAndAdd env c r st = indexAndAdd_enqueued env c r st"
    by (auto simp: indexAndAdd_def indexAndAdd_checked_def)
  show ?thesis
  proof (cases "parseUrl env (startUrl c)")
    case None
    with T1 show ?thesis by (simp add: run indexAndAdd_enqueued_def)
  next
    case (Some href)
    show ?thesis
    proof (cases "snd (snd (crawl_and_embed env c st)) = []")
      case True
      with T1 Some show ?thesis by (simp add: run indexAndAdd_enqueued_def Let_def)
    next
      case False
      show ?thesis
        using Some False D A T2 T3 T4 run
        by (cases r; cases e2; cases e3) (auto simp: indexAndAdd_enqueued_def Let_def)
    qed
  qed
qed

lemma tracked_after_search:
  assumes "tracked_tables_exist st"
  shows "tracked_tables_exist (after_search env u v k st)"
proof -
  let ?G = "getOrCreateLanceTable env (Some v) (isPreIndexedDoc env u) st"
  obtain r st1 where G: "?G = (r, st1)"
    by (cases ?G) auto
  from tracked_getOrCreateLanceTable [OF assms, of env "Some v" "isPreIndexedDoc env u"] G
  have "tracked_tables_exist st1"
    by simp
  with G show ?thesis
    by (cases r) (simp_all add: after_search_def tracked_tables_exist_def)
qed

lemma tracked_fetchAndAdd:
  assumes "tracked_tables_exist st"
  shows "tracked_tables_exist (snd (fetchAndAddPreIndexedDocEmbeddings env t st))"
proof -
  let ?st1 = "st\<lparr>effects := effects st @
      [S3Download (provider_id (getEmbeddingsProvider env True st)) t]\<rparr>"
  from assms have "tracked_tables_exist ?st1"
    by (simp add: tracked_tables_exist_def)
  then show ?thesis
    by (simp add: fetchAndAddPreIndexedDocEmbeddings_def Let_def tracked_add
        split: option.splits)
qed

lemma tracked_search_only:
  "tracked_tables_exist st \<Longrightarrow> tracked_tables_exist (snd (search_only env u v k st))"
  by (simp add: search_only_def tracked_after_search split: sum.splits)

lemma tracked_retrieveChunks:
  assumes "tracked_tables_exist st"
  shows "tracked_tables_exist (snd (retrieveChunks env u v k isRetry st))"
proof (cases "fallback_needed env u v k st \<and> \<not> isRetry")
  case False
  have "retrieveChunks env u v k isRetry st = search_only env u v k st"
  proof (cases isRetry)
    case True
    then show ?thesis by (simp add: retrieveChunks_retry)
  next
    case no_retry: False
    with False show ?thesis by (simp add: retrieveChunks_local)
  qed
  with assms show ?thesis
    by (simp add: tracked_search_only)
next
  case True
  then obtain d where d: "preIndexedDocs env u = Some d"
    by (auto simp: fallback_needed_def isPreIndexedDoc_def)
  obtain e st3 where F: "fallback_result env u v k st = (e, st3)"
    by (cases "fallback_result env u v k st") auto
  from tracked_fetchAndAdd [OF tracked_after_search [OF assms], of env "title d" env u v k] F d
  have T3: "tracked_tables_exist st3"
    by (simp add: fallback_result_def)
  from True have R: "retrieveChunks env u v k isRetry st =
      (case fallback_result env u v k st of
         (Some e, st3) \<Rightarrow> (Inl e, st3)
       | (None, st3) \<Rightarrow> search_only env u v k st3)"
    using retrieveChunks_fallback [of env u v k st] by simp
  show ?thesis
    using T3 F
    by (cases e) (simp_all add: R tracked_search_only)
qed

subsection \<open>Chunks and embeddings\<close>









lemma no_new_rows_refl: "no_new_rows st st"
  by (auto simp: no_new_rows_def)



subsection \<open>The ends of a run\<close>




text \<open>A \<open>startUrl\<close> that is no URL: the run yields \<open>Finding subpages\<close> and ends with the
  exception of \<open>new URL\<close>, the site being in the queue.\<close>

lemma indexAndAdd_not_a_url:
  assumes "startUrl c \<notin> docsIndexingQueue st" and "r \<or> \<not> has env st (startUrl c)"
    and "parseUrl env (startUrl c) = None"
  shows "indexAndAdd env c r st =
     ([event_finding_subpages], Some (InvalidUrl (startUrl c)),
      st\<lparr>docsIndexingQueue := insert (startUrl c) (docsIndexingQueue st)\<rparr>)"
  using assms by (auto simp: indexAndAdd_def indexAndAdd_checked_def indexAndAdd_enqueued_def)

lemma not_a_url_run:
  "indexAndAdd no_page_env not_a_url_config False example_state =
     ([event_finding_subpages], Some (InvalidUrl ''notaurl''),
      example_state\<lparr>docsIndexingQueue := {''notaurl''}\<rparr>)"
proof -
  have "indexAndAdd no_page_env not_a_url_config False example_state =
     ([event_finding_subpages], Some (InvalidUrl (startUrl not_a_url_config)),
      example_state\<lparr>docsIndexingQueue :=
        insert (startUrl not_a_url_config) (docsIndexingQueue example_state)\<rparr>)"
    by (rule indexAndAdd_not_a_url)
       (simp_all add: not_a_url_config_def example_state_def has_def no_page_env_def
          example_env_def example_parseUrl_example)
  then show ?thesis
    by (simp add: not_a_url_config_def example_state_def)
qed

text \<open>The crawling loop by itself, fed with three pages that all yield an article: the
  values are 1, 1 and 3/4. No run of this repository feeds it a page.\<close>

lemma crawl_loop_three_articles:
  "\<not> sorted (map progress (snd (crawl_loop example_env
      (crawlPage example_env (startUrl example_config) (maxDepth example_config)) 0 1)))"
proof -
  have "\<not> sorted [1, 1, 3 / 4 :: rat]"
    by code_simp
  then show ?thesis
    unfolding example_crawl_progress .
qed


text \<open>With a crawler that yields two pages and a provider that raises on the first text,
  the run enters the step that persists with two chunks and one embedding;
  \<open>table.add\<close> refuses the batch, the run ends with that exception, and the new table
  has no row.\<close>

lemma failing_run:
  "reached_persisting (indexAndAdd failing_env example_config False example_state) \<and>
   fst (snd (indexAndAdd failing_env example_config False example_state)) = Some LanceInvalidData \<and>
   lanceTables (snd (snd (indexAndAdd failing_env example_config False example_state)))
     ''docsopenaix'' = Some \<lparr>dimension = 1, table_rows = []\<rparr> \<and>
   sqliteDocs (snd (snd (indexAndAdd failing_env example_config False example_state))) = []"
proof -
  have p: "parseUrl failing_env (startUrl example_config) = Some ''https://docs.example.com/''"
    by (simp add: failing_env_def example_env_def example_config_def example_parseUrl_example)
  show ?thesis
    apply (simp add: indexAndAdd_def indexAndAdd_checked_def indexAndAdd_enqueued_def
        failing_collect p Let_def reached_persisting_def event_adding_def)
    apply (simp add: example_state_def failing_env_def example_env_def eval_defs example_chunk_def
        example_config_def)
    done
qed

subsection \<open>The stores on unusual requests\<close>

text \<open>In the state after the example site was indexed: a search with limit 0 and a search
  with a vector of another length are refused; a provider id with a slash gives a table
  name that the vector store refuses; with a row of another site in front and limit 1
  the search finds no row of the site, although the table has three; a site name with a
  single quote makes the filter text unreadable; and a batch with more chunks than
  embeddings is refused as a whole.\<close>

lemma search_limit_zero_refused:
  "fst (retrieveChunks example_env ''https://docs.example.com'' [1] 0 False stored_state) = Inl LanceInvalidQuery"
  by (subst retrieveChunks.simps) (simp add: eval_defs example_env_def stored_state_def example_state_def search_table_def example_rows_def)

lemma search_other_length_refused:
  "fst (retrieveChunks example_env ''https://docs.example.com'' [1, 2] 3 False stored_state) = Inl LanceInvalidQuery"
  by (subst retrieveChunks.simps) (simp add: eval_defs example_env_def stored_state_def example_state_def search_table_def example_rows_def)

lemma table_name_refused:
  "fst (retrieveChunks example_env ''https://docs.example.com'' [1] 3 False
     (example_state\<lparr>config_embeddingsProvider := \<lparr>provider_id = ''a/b'', maxChunkSize = 1\<rparr>\<rparr>)) =
   Inl (LanceInvalidTableName ''docsa/b'')"
  by (subst retrieveChunks.simps) (simp add: eval_defs example_env_def example_state_def search_table_def valid_table_name_def alphanumeric_def)

lemma search_cuts_before_filter:
  "fst (retrieveChunks example_env ''https://docs.example.com'' [1] 1 False
     (stored_state\<lparr>lanceTables := [''docsopenaix'' \<mapsto> \<lparr>dimension = 1, table_rows =
        \<lparr>row_title = ''O'', starturl = ''https://other'', row_content = ''x'', path = ''/o'',
          startline = 0, endline = 1, vector = Some [1]\<rparr> # example_rows\<rparr>]\<rparr>)) = Inr []"
  by (subst retrieveChunks.simps) (simp add: eval_defs example_env_def stored_state_def example_state_def search_table_def example_rows_def plain_text_def single_quote_def)

lemma search_quoted_url_refused:
  "fst (retrieveChunks example_env quoted_url [1] 1 False stored_state) = Inl (LanceInvalidFilter quoted_url)"
  by (subst retrieveChunks.simps) (simp add: eval_defs example_env_def stored_state_def example_state_def search_table_def example_rows_def starturl_filter_def plain_text_def unterminated_literal_def quoted_url_def single_quote_def alphanumeric_def)

lemma batch_without_vector_refused:
  "addToLance example_env \<lparr>siteIndexingConfig = example_config,
      params_chunks = [example_chunk \<lparr>subpath = ''/a'', article_text = ''A''\<rparr>,
                       example_chunk \<lparr>subpath = ''/b'', article_text = ''B''\<rparr>],
      params_embeddings = [[1]], params_favicon = favicon_data\<rparr> stored_state =
   (Some LanceInvalidData, stored_state)"
  by (simp add: eval_defs example_env_def stored_state_def example_state_def example_config_def example_chunk_def)

section \<open>The claims\<close>

subsection \<open>Indexing\<close>

text \<open>
  Claim C2. If the relational table already has a row for the site, the site is not in the
  indexing queue and \<open>reIndex\<close> is false, then \<open>indexAndAdd\<close> yields exactly one event,
  \<open>{progress: 1, desc: "Already indexed", status: "done"}\<close>, and the state after the run
  is the state before it: no row is written to either store.
\<close>

theorem indexAndAdd_already_indexed:
  assumes "has env st (startUrl c)" and "startUrl c \<notin> docsIndexingQueue st"
  shows "indexAndAdd env c False st =
           ([\<lparr>progress = 1, desc = ''Already indexed'', status = ''done''\<rparr>], None, st)"
  using assms by (simp add: indexAndAdd_def indexAndAdd_checked_def event_already_indexed_def)

theorem indexAndAdd_already_indexed_witness:
  "has example_env indexed_state (startUrl example_config) \<and>
   startUrl example_config \<notin> docsIndexingQueue indexed_state \<and>
   indexAndAdd example_env example_config False indexed_state =
     ([\<lparr>progress = 1, desc = ''Already indexed'', status = ''done''\<rparr>], None, indexed_state)"
proof -
  have h: "has example_env indexed_state (startUrl example_config)"
    by (simp add: has_def indexed_state_def example_state_def example_config_def
        stored_text_example)
  have q: "startUrl example_config \<notin> docsIndexingQueue indexed_state"
    by (simp add: indexed_state_def example_state_def)
  from indexAndAdd_already_indexed [OF h q] h q show ?thesis by simp
qed

text \<open>
  Claim C7, as amended. If the site is in the indexing queue when \<open>indexAndAdd\<close> tests the
  queue, the run has no event and the state after it is the state before it: neither
  store is read or written. Hence a call that tests the queue after another call for the
  same site has inserted it, and before that call removes it, yields nothing. The test
  and the insertion are separated by the suspension at \<open>await this.has(startUrl)\<close>, so
  two calls that both test the queue before either inserts are both past the test.
\<close>

theorem indexAndAdd_in_queue:
  assumes "startUrl c \<in> docsIndexingQueue st"
  shows "indexAndAdd env c reIndex st = ([], None, st)"
  using assms by (simp add: indexAndAdd_def)

theorem indexAndAdd_in_queue_witness:
  "startUrl example_config \<in> docsIndexingQueue queued_state \<and>
   indexAndAdd example_env example_config True queued_state = ([], None, queued_state)"
proof -
  have q: "startUrl example_config \<in> docsIndexingQueue queued_state"
    by (simp add: queued_state_def example_config_def)
  from indexAndAdd_in_queue [OF q, of example_env True] q show ?thesis by simp
qed

text \<open>
  Claim C7 as stated fails: it says that of two calls for one site, the second started
  before the first completed, one yields nothing. In \<open>example_state\<close> the site is neither
  queued nor indexed, so two calls started one after the other both pass the test of the
  queue and the test \<open>has\<close> before either reaches the insertion. With a crawler that
  yields three pages the first then runs to its event \<open>Done\<close>, and the second, continued
  from its insertion on, yields \<open>Finding subpages\<close> and every later event up to
  \<open>Adding 3 embeddings to db\<close>, and ends in the exception of the UNIQUE constraint.
  With the crawler of this repository each of the two calls yields \<open>Finding subpages\<close>
  and the event of the failure.
\<close>

theorem indexAndAdd_race_counterexample:
  "startUrl example_config \<notin> docsIndexingQueue example_state \<and>
   \<not> has example_env example_state (startUrl example_config) \<and>
   last (fst (indexAndAdd_enqueued example_env example_config False example_state)) =
     event_done \<and>
   hd (fst (indexAndAdd_enqueued example_env example_config False
     (snd (snd (indexAndAdd_enqueued example_env example_config False example_state))))) =
     event_finding_subpages \<and>
   length (fst (indexAndAdd_enqueued example_env example_config False
     (snd (snd (indexAndAdd_enqueued example_env example_config False example_state))))) = 8 \<and>
   fst (snd (indexAndAdd_enqueued example_env example_config False
     (snd (snd (indexAndAdd_enqueued example_env example_config False example_state))))) =
     Some (SqliteUniqueConstraint ''https://docs.example.com'') \<and>
   \<not> has no_page_env example_state (startUrl example_config) \<and>
   fst (indexAndAdd_enqueued no_page_env example_config False example_state) =
     [event_finding_subpages, event_no_embeddings ''https://docs.example.com''] \<and>
   fst (indexAndAdd_enqueued no_page_env example_config False
     (snd (snd (indexAndAdd_enqueued no_page_env example_config False example_state)))) =
     [event_finding_subpages, event_no_embeddings ''https://docs.example.com'']"
  by (simp add: example_run example_second_run example_collect no_page_run no_page_second_run)
     (simp add: example_state_def has_def)

text \<open>
  Claim C1. A run produces zero embeddings when it is past both guards (the site is not
  queued, and \<open>reIndex\<close> is set or the site has no row), \<open>startUrl\<close> is a URL, so that
  the crawl starts, and the embedding loop ends with no embedding. Such a run ends with
  the event \<open>{progress: 1, desc: "No embeddings were created for site: <url>",
  status: "failed"}\<close>, every event before it has the status \<open>indexing\<close>, no exception is
  raised, and the state after the run is the state before it with \<open>startUrl\<close> inserted
  into the indexing queue: nothing is written to the vector tables or the relational
  table, and the site stays in the queue. With the crawler of this repository the
  embedding loop of every run ends with no embedding.
\<close>

theorem indexAndAdd_no_embeddings:
  assumes "startUrl c \<notin> docsIndexingQueue st"
    and "reIndex \<or> \<not> has env st (startUrl c)"
    and "parseUrl env (startUrl c) \<noteq> None"
    and "snd (snd (crawl_and_embed env c st)) = []"
  shows "\<exists>evs. indexAndAdd env c reIndex st =
           (evs @ [\<lparr>progress = 1,
                     desc = ''No embeddings were created for site: '' @ startUrl c,
                     status = ''failed''\<rparr>],
            None,
            st\<lparr>docsIndexingQueue := insert (startUrl c) (docsIndexingQueue st)\<rparr>)
         \<and> (\<forall>e \<in> set evs. status e = ''indexing'')"
  using assms
  by (auto simp: indexAndAdd_def indexAndAdd_checked_def indexAndAdd_enqueued_def Let_def
      event_no_embeddings_def event_finding_subpages_def dest: crawl_and_embed_status)

theorem indexAndAdd_no_embeddings_witness:
  "startUrl example_config \<notin> docsIndexingQueue example_state \<and>
   \<not> has no_page_env example_state (startUrl example_config) \<and>
   parseUrl no_page_env (startUrl example_config) = Some ''https://docs.example.com/'' \<and>
   crawlPage no_page_env = crawlPage_src \<and>
   snd (snd (crawl_and_embed no_page_env example_config example_state)) = [] \<and>
   (\<exists>evs. indexAndAdd no_page_env example_config False example_state =
      (evs @ [\<lparr>progress = 1,
                desc = ''No embeddings were created for site: '' @ startUrl example_config,
                status = ''failed''\<rparr>],
       None,
       example_state\<lparr>docsIndexingQueue :=
         insert (startUrl example_config) (docsIndexingQueue example_state)\<rparr>)
      \<and> (\<forall>e \<in> set evs. status e = ''indexing''))
   \<and> sqliteDocs (snd (snd (indexAndAdd no_page_env example_config False example_state))) = []
   \<and> lanceTables (snd (snd (indexAndAdd no_page_env example_config False example_state))) =
       Map.empty
   \<and> startUrl example_config \<in>
       docsIndexingQueue (snd (snd (indexAndAdd no_page_env example_config False example_state)))"
proof -
  have q: "startUrl example_config \<notin> docsIndexingQueue example_state"
    by (simp add: example_state_def)
  have h: "False \<or> \<not> has no_page_env example_state (startUrl example_config)"
    by (simp add: example_state_def has_def)
  have p: "parseUrl no_page_env (startUrl example_config) \<noteq> None"
    by (simp add: no_page_parse)
  have s: "crawlPage no_page_env = crawlPage_src"
    by (simp add: no_page_env_def)
  have z: "snd (snd (crawl_and_embed no_page_env example_config example_state)) = []"
    by (simp add: no_page_collect)
  from indexAndAdd_no_embeddings [OF q h p z]
  obtain evs where r: "indexAndAdd no_page_env example_config False example_state =
      (evs @ [\<lparr>progress = 1,
                desc = ''No embeddings were created for site: '' @ startUrl example_config,
                status = ''failed''\<rparr>],
       None,
       example_state\<lparr>docsIndexingQueue :=
         insert (startUrl example_config) (docsIndexingQueue example_state)\<rparr>)"
    and i: "\<forall>e \<in> set evs. status e = ''indexing''"
    by blast
  have d: "sqliteDocs (snd (snd (indexAndAdd no_page_env example_config False example_state))) = []"
    by (simp add: r) (simp add: example_state_def)
  have t: "lanceTables (snd (snd (indexAndAdd no_page_env example_config False example_state))) =
       Map.empty"
    by (simp add: r) (simp add: example_state_def)
  have m: "startUrl example_config \<in>
       docsIndexingQueue (snd (snd (indexAndAdd no_page_env example_config False example_state)))"
    by (simp add: r)
  from q h no_page_parse s z r i d t m show ?thesis by blast
qed





text \<open>
  Claim C10. \<open>fetchFavicon\<close> returns the same data URI for every site configuration, and
  after any run of \<open>indexAndAdd\<close> every row of the relational table is a row that was
  there before the run or the row of the site with that data URI as its favicon.
\<close>

theorem fetchFavicon_constant:
  "fetchFavicon (c :: SiteIndexingConfig) = favicon_data \<and>
   fetchFavicon c = fetchFavicon (c' :: SiteIndexingConfig) \<and>
   (\<forall>row \<in> set (sqliteDocs (snd (snd (indexAndAdd env c reIndex st)))).
      row \<in> set (sqliteDocs st) \<or>
      row = \<lparr>doc_title = stored_text env (title c), doc_startUrl = stored_text env (startUrl c),
             doc_favicon = favicon_data\<rparr>)"
  using indexAndAdd_frame [of env c reIndex st] by (auto simp: fetchFavicon_def)

theorem fetchFavicon_constant_witness:
  "sqliteDocs (snd (snd (indexAndAdd example_env example_config False example_state))) =
     [\<lparr>doc_title = ''Docs'', doc_startUrl = ''https://docs.example.com'',
       doc_favicon = favicon_data\<rparr>] \<and>
   fetchFavicon example_config = favicon_data \<and>
   fetchFavicon example_config = fetchFavicon (example_config\<lparr>startUrl := ''https://other''\<rparr>) \<and>
   list_all (\<lambda>row. row \<in> set (sqliteDocs example_state) \<or>
      row = \<lparr>doc_title = ''Docs'', doc_startUrl = ''https://docs.example.com'',
             doc_favicon = favicon_data\<rparr>)
     (sqliteDocs (snd (snd (indexAndAdd example_env example_config False example_state))))"
proof -
  have run: "indexAndAdd example_env example_config False example_state =
      indexAndAdd_enqueued example_env example_config False example_state"
    by (simp add: indexAndAdd_def indexAndAdd_checked_def example_state_def has_def)
  have rows: "sqliteDocs (snd (snd (indexAndAdd example_env example_config False example_state))) =
     [\<lparr>doc_title = ''Docs'', doc_startUrl = ''https://docs.example.com'',
       doc_favicon = favicon_data\<rparr>]"
    by (simp add: run example_run) (simp add: stored_state_def)
  have stored: "stored_text example_env (title example_config) = ''Docs''"
    "stored_text example_env (startUrl example_config) = ''https://docs.example.com''"
    by (simp_all add: example_config_def stored_text_example)
  from fetchFavicon_constant [of example_config "example_config\<lparr>startUrl := ''https://other''\<rparr>"
      example_env False example_state] rows stored
  show ?thesis unfolding list_all_iff by auto
qed

subsection \<open>Switching the embeddings provider\<close>

text \<open>
  Claim C8, as amended. On a JetBrains host whose configured provider is the provider of
  the pre-indexed docs, \<open>shouldReindexDocsOnNewEmbeddingsProvider\<close> shows the warning as
  an error popup, stores the new provider id as \<open>curEmbeddingsProviderId\<close> and returns
  false; the handler of the configuration update then does not reindex and raises
  nothing. The popup is shown before the persisted id is read, so the stored id does not
  keep it from being shown again: the next call shows it once more, whatever id is
  stored.
\<close>

theorem shouldReindex_refused_on_jetbrains:
  assumes "ideType env = ''jetbrains''"
    and "provider_id (config_embeddingsProvider st) =
         provider_id (preIndexedDocsEmbeddingsProvider env)"
  shows "shouldReindexDocsOnNewEmbeddingsProvider env newId st =
           (False, st\<lparr>effects := effects st @ [ErrorPopup jetbrains_warning],
                      curEmbeddingsProviderId := Some newId\<rparr>)
       \<and> onConfigUpdate_provider env st =
           (None, st\<lparr>effects := effects st @ [ErrorPopup jetbrains_warning],
                     curEmbeddingsProviderId := Some (provider_id (config_embeddingsProvider st))\<rparr>)
       \<and> shouldReindexDocsOnNewEmbeddingsProvider env nextId
           (snd (shouldReindexDocsOnNewEmbeddingsProvider env newId st)) =
           (False, st\<lparr>effects := effects st @
                        [ErrorPopup jetbrains_warning, ErrorPopup jetbrains_warning],
                      curEmbeddingsProviderId := Some nextId\<rparr>)"
  using assms
  by (simp add: shouldReindexDocsOnNewEmbeddingsProvider_def onConfigUpdate_provider_def
      isJetBrainsAndPreIndexedDocsProvider_def isJetBrains_def Let_def)

theorem shouldReindex_refused_on_jetbrains_witness:
  "ideType jetbrains_env = ''jetbrains'' \<and>
   provider_id (config_embeddingsProvider jetbrains_state) =
     provider_id (preIndexedDocsEmbeddingsProvider jetbrains_env) \<and>
   curEmbeddingsProviderId jetbrains_state = Some ''openai:x'' \<and>
   shouldReindexDocsOnNewEmbeddingsProvider jetbrains_env ''tjs'' jetbrains_state =
     (False, jetbrains_state\<lparr>effects := effects jetbrains_state @ [ErrorPopup jetbrains_warning],
                              curEmbeddingsProviderId := Some ''tjs''\<rparr>) \<and>
   shouldReindexDocsOnNewEmbeddingsProvider jetbrains_env ''tjs''
     (snd (shouldReindexDocsOnNewEmbeddingsProvider jetbrains_env ''tjs'' jetbrains_state)) =
     (False, jetbrains_state\<lparr>effects := effects jetbrains_state @
                                [ErrorPopup jetbrains_warning, ErrorPopup jetbrains_warning],
                              curEmbeddingsProviderId := Some ''tjs''\<rparr>) \<and>
   onConfigUpdate_provider jetbrains_env jetbrains_state =
     (None, jetbrains_state\<lparr>effects := effects jetbrains_state @ [ErrorPopup jetbrains_warning],
                             curEmbeddingsProviderId := Some ''tjs''\<rparr>)"
proof -
  have j: "ideType jetbrains_env = ''jetbrains''"
    by (simp add: jetbrains_env_def)
  have p: "provider_id (config_embeddingsProvider jetbrains_state) =
      provider_id (preIndexedDocsEmbeddingsProvider jetbrains_env)"
    by (simp add: jetbrains_state_def jetbrains_env_def example_env_def)
  have o: "curEmbeddingsProviderId jetbrains_state = Some ''openai:x''"
    by (simp add: jetbrains_state_def)
  have i: "provider_id (config_embeddingsProvider jetbrains_state) = ''tjs''"
    by (simp add: jetbrains_state_def)
  note T = shouldReindex_refused_on_jetbrains [OF j p, of "''tjs''" "''tjs''"]
  from T have a: "shouldReindexDocsOnNewEmbeddingsProvider jetbrains_env ''tjs'' jetbrains_state =
     (False, jetbrains_state\<lparr>effects := effects jetbrains_state @ [ErrorPopup jetbrains_warning],
                              curEmbeddingsProviderId := Some ''tjs''\<rparr>)"
    by blast
  from T have b: "shouldReindexDocsOnNewEmbeddingsProvider jetbrains_env ''tjs''
     (snd (shouldReindexDocsOnNewEmbeddingsProvider jetbrains_env ''tjs'' jetbrains_state)) =
     (False, jetbrains_state\<lparr>effects := effects jetbrains_state @
                                [ErrorPopup jetbrains_warning, ErrorPopup jetbrains_warning],
                              curEmbeddingsProviderId := Some ''tjs''\<rparr>)"
    by blast
  from T have "onConfigUpdate_provider jetbrains_env jetbrains_state =
     (None, jetbrains_state\<lparr>effects := effects jetbrains_state @ [ErrorPopup jetbrains_warning],
        curEmbeddingsProviderId :=
          Some (provider_id (config_embeddingsProvider jetbrains_state))\<rparr>)"
    by blast
  then have c: "onConfigUpdate_provider jetbrains_env jetbrains_state =
     (None, jetbrains_state\<lparr>effects := effects jetbrains_state @ [ErrorPopup jetbrains_warning],
                             curEmbeddingsProviderId := Some ''tjs''\<rparr>)"
    unfolding i .
  from j p o a b c show ?thesis by blast
qed

text \<open>
  Claim C8 as stated fails: it says that the persisted id is updated so that the prompt
  does not repeat. On the JetBrains host the first call stores the id \<open>tjs\<close>; a second
  call with the same id, which is then the persisted one, shows the popup again, and so
  does the handler of a second configuration update.
\<close>

theorem shouldReindex_popup_repeats:
  "curEmbeddingsProviderId
     (snd (shouldReindexDocsOnNewEmbeddingsProvider jetbrains_env ''tjs'' jetbrains_state)) =
     Some ''tjs'' \<and>
   popups (snd (shouldReindexDocsOnNewEmbeddingsProvider jetbrains_env ''tjs'' jetbrains_state)) =
     1 \<and>
   effects (snd (shouldReindexDocsOnNewEmbeddingsProvider jetbrains_env ''tjs''
     (snd (shouldReindexDocsOnNewEmbeddingsProvider jetbrains_env ''tjs'' jetbrains_state)))) =
     [ErrorPopup jetbrains_warning, ErrorPopup jetbrains_warning] \<and>
   popups (snd (shouldReindexDocsOnNewEmbeddingsProvider jetbrains_env ''tjs''
     (snd (shouldReindexDocsOnNewEmbeddingsProvider jetbrains_env ''tjs'' jetbrains_state)))) =
     2 \<and>
   effects (snd (onConfigUpdate_provider jetbrains_env
     (snd (onConfigUpdate_provider jetbrains_env jetbrains_state)))) =
     [ErrorPopup jetbrains_warning, ErrorPopup jetbrains_warning]"
  by (simp add: shouldReindexDocsOnNewEmbeddingsProvider_def popups_def
      onConfigUpdate_provider_def Let_def
      isJetBrainsAndPreIndexedDocsProvider_def isJetBrains_def jetbrains_env_def
      jetbrains_state_def example_env_def example_state_def)

text \<open>
  Claim C5. With a non-empty list of configured sites, \<open>reindexDocsOnNewEmbeddingsProvider\<close>
  runs, for each site in order, \<open>delete\<close> and then \<open>indexAndAdd\<close>, and as its last step
  updates the persisted provider id. After every proper prefix of these steps, whether
  the prefix ended normally or in an exception, the persisted provider id has the value
  it had before the operation. If the operation raises, the id has its old value at the
  end; if it does not, the id is the id of the new provider.
\<close>

theorem provider_id_updated_after_all_sites:
  assumes "config_docs st = Some docs" and "docs \<noteq> []"
  shows "reindexDocsOnNewEmbeddingsProvider env p st = run_steps env (reindex_steps p docs) st \<and>
     length (reindex_steps p docs) = 2 * length docs + 1 \<and>
     last (reindex_steps p docs) = UpdateProviderId (provider_id p) \<and>
     (\<forall>n < length (reindex_steps p docs).
        curEmbeddingsProviderId (snd (run_steps env (take n (reindex_steps p docs)) st)) =
        curEmbeddingsProviderId st) \<and>
     (fst (reindexDocsOnNewEmbeddingsProvider env p st) \<noteq> None \<longrightarrow>
        curEmbeddingsProviderId (snd (reindexDocsOnNewEmbeddingsProvider env p st)) =
        curEmbeddingsProviderId st) \<and>
     (fst (reindexDocsOnNewEmbeddingsProvider env p st) = None \<longrightarrow>
        curEmbeddingsProviderId (snd (reindexDocsOnNewEmbeddingsProvider env p st)) =
        Some (provider_id p))"
proof -
  let ?sites = "concat (map (\<lambda>doc. [DeleteSite (startUrl doc), IndexSite doc]) docs)"
  have steps: "reindex_steps p docs = ?sites @ [UpdateProviderId (provider_id p)]"
    by (simp add: reindex_steps_def)
  have len_sites: "length ?sites = 2 * length docs"
    by (induction docs) simp_all
  have run: "reindexDocsOnNewEmbeddingsProvider env p st = run_steps env (reindex_steps p docs) st"
    using assms by (simp add: reindexDocsOnNewEmbeddingsProvider_def)
  have len: "length (reindex_steps p docs) = 2 * length docs + 1"
    by (simp add: steps len_sites)
  have lst: "last (reindex_steps p docs) = UpdateProviderId (provider_id p)"
    by (simp add: steps)
  have prefixes: "\<forall>n < length (reindex_steps p docs).
      curEmbeddingsProviderId (snd (run_steps env (take n (reindex_steps p docs)) st)) =
      curEmbeddingsProviderId st"
  proof (intro allI impI)
    fix n
    assume "n < length (reindex_steps p docs)"
    then have "n \<le> length ?sites"
      by (simp add: steps)
    then have tk: "take n (reindex_steps p docs) = take n ?sites"
      by (simp add: steps)
    have "list_all (\<lambda>s. \<forall>i. s \<noteq> UpdateProviderId i) (take n ?sites)"
      using site_steps_no_update [of docs]
      by (auto simp: list_all_iff dest: in_set_takeD)
    then show "curEmbeddingsProviderId (snd (run_steps env (take n (reindex_steps p docs)) st)) =
      curEmbeddingsProviderId st"
      unfolding tk by (rule run_steps_keeps_provider_id)
  qed
  obtain e st1 where S: "run_steps env ?sites st = (e, st1)"
    by (cases "run_steps env ?sites st") auto
  have keep: "curEmbeddingsProviderId st1 = curEmbeddingsProviderId st"
    using run_steps_keeps_provider_id [OF site_steps_no_update, of env docs st] S by simp
  have raised: "fst (reindexDocsOnNewEmbeddingsProvider env p st) \<noteq> None \<longrightarrow>
      curEmbeddingsProviderId (snd (reindexDocsOnNewEmbeddingsProvider env p st)) =
      curEmbeddingsProviderId st"
    using S keep by (cases e) (simp_all add: run steps run_steps_append)
  have finished: "fst (reindexDocsOnNewEmbeddingsProvider env p st) = None \<longrightarrow>
      curEmbeddingsProviderId (snd (reindexDocsOnNewEmbeddingsProvider env p st)) =
      Some (provider_id p)"
    using S by (cases e) (simp_all add: run steps run_steps_append)
  from run len lst prefixes raised finished show ?thesis
    by blast
qed

theorem provider_id_updated_after_all_sites_witness:
  "config_docs example_state = Some [example_config] \<and> [example_config] \<noteq> [] \<and>
   curEmbeddingsProviderId example_state = Some ''tjs'' \<and>
   curEmbeddingsProviderId (snd (run_steps example_env
     (take 2 (reindex_steps (config_embeddingsProvider example_state) [example_config]))
     example_state)) = Some ''tjs'' \<and>
   fst (reindexDocsOnNewEmbeddingsProvider example_env (config_embeddingsProvider example_state)
     example_state) = None \<and>
   curEmbeddingsProviderId (snd (reindexDocsOnNewEmbeddingsProvider example_env
     (config_embeddingsProvider example_state) example_state)) = Some ''openai:x''"
proof -
  have c: "config_docs example_state = Some [example_config]"
    by (simp add: example_state_def)
  have n: "[example_config] \<noteq> []"
    by simp
  have o: "curEmbeddingsProviderId example_state = Some ''tjs''"
    by (simp add: example_state_def)
  have l: "(2::nat) < length (reindex_steps (config_embeddingsProvider example_state) [example_config])"
    by (simp add: reindex_steps_def)
  have f: "fst (reindexDocsOnNewEmbeddingsProvider example_env
      (config_embeddingsProvider example_state) example_state) = None"
    by (simp add: example_switch)
  have i: "provider_id (config_embeddingsProvider example_state) = ''openai:x''"
    by (simp add: example_state_def)
  note T = provider_id_updated_after_all_sites [OF c n, of example_env
      "config_embeddingsProvider example_state"]
  from T l
  have "curEmbeddingsProviderId (snd (run_steps example_env
      (take 2 (reindex_steps (config_embeddingsProvider example_state) [example_config]))
      example_state)) = curEmbeddingsProviderId example_state"
    by blast
  with o have mid: "curEmbeddingsProviderId (snd (run_steps example_env
      (take 2 (reindex_steps (config_embeddingsProvider example_state) [example_config]))
      example_state)) = Some ''tjs''"
    by simp
  from T f
  have "curEmbeddingsProviderId (snd (reindexDocsOnNewEmbeddingsProvider example_env
      (config_embeddingsProvider example_state) example_state)) =
      Some (provider_id (config_embeddingsProvider example_state))"
    by blast
  with i have fin: "curEmbeddingsProviderId (snd (reindexDocsOnNewEmbeddingsProvider example_env
      (config_embeddingsProvider example_state) example_state)) = Some ''openai:x''"
    by simp
  from c n o mid f fin show ?thesis
    by blast
qed

subsection \<open>Deleting\<close>




subsection \<open>Retrieval\<close>

text \<open>
  Claim C3, as amended. For a call \<open>retrieveChunks(startUrl, vector, k, isRetry)\<close>:
  \<^item> the bundle is downloaded once if the search answers with no row, the relational
    table has no row of the site, the site is in the catalog and \<open>isRetry\<close> is false,
    and not at all otherwise; in particular never when the relational table has a row of
    the site, and never more than once;
  \<^item> the vector store is searched once if the table could be opened, and a second time
    exactly if the bundle was downloaded and persisted without an exception;
  \<^item> after the download the call ends with the exception of the persisting, or is the
    retry on the state after the persisting; the retry raises nothing and returns the
    chunks of the rows it finds, the empty sequence if it finds none;
  \<^item> without the download the call is the search alone;
  \<^item> if the bundle was persisted and the URL of the bundle, as \<open>new URL(...).toString()\<close>
    prints it, is \<open>startUrl\<close>, the relational table then has a row of the site and any
    later call for the site downloads nothing.
\<close>

theorem retrieveChunks_remote_fallback:
  "downloads (snd (retrieveChunks env u v k isRetry st)) =
     downloads st + (if fallback_needed env u v k st \<and> \<not> isRetry then 1 else 0) \<and>
   (hasIndexedDoc env st u \<longrightarrow>
      downloads (snd (retrieveChunks env u v k isRetry st)) = downloads st) \<and>
   searches (snd (retrieveChunks env u v k isRetry st)) =
     searches st + (if table_opened env u v st then 1 else 0) +
       (if fallback_needed env u v k st \<and> \<not> isRetry \<and>
           fst (fallback_result env u v k st) = None
        then 1 else 0) \<and>
   (fallback_needed env u v k st \<and> \<not> isRetry \<longrightarrow>
      retrieveChunks env u v k isRetry st =
        (case fallback_result env u v k st of
           (Some e, st3) \<Rightarrow> (Inl e, st3)
         | (None, st3) \<Rightarrow> search_only env u v k st3)) \<and>
   (fallback_needed env u v k st \<and> \<not> isRetry \<and> fst (fallback_result env u v k st) = None \<longrightarrow>
      (\<exists>docs. local_search env u v k (snd (fallback_result env u v k st)) = Inr docs \<and>
              fst (retrieveChunks env u v k isRetry st) = Inr (map chunk_of_row docs))) \<and>
   (\<not> (fallback_needed env u v k st \<and> \<not> isRetry) \<longrightarrow>
      retrieveChunks env u v k isRetry st = search_only env u v k st) \<and>
   (fallback_needed env u v k st \<and> \<not> isRetry \<and> fst (fallback_result env u v k st) = None \<and>
    bundle_startUrl env u st = Some u \<longrightarrow>
      hasIndexedDoc env (snd (retrieveChunks env u v k isRetry st)) u \<and>
      (\<forall>v' k' r'. downloads (snd (retrieveChunks env u v' k' r'
          (snd (retrieveChunks env u v k isRetry st)))) =
        downloads (snd (retrieveChunks env u v k isRetry st))))"
proof -
  let ?r = "retrieveChunks env u v k isRetry st"
  let ?f = "fallback_result env u v k st"
  have local: "?r = search_only env u v k st" if "\<not> (fallback_needed env u v k st \<and> \<not> isRetry)"
  proof (cases isRetry)
    case True
    then show ?thesis by (simp add: retrieveChunks_retry)
  next
    case False
    with that show ?thesis by (simp add: retrieveChunks_local)
  qed
  have remote: "?r = (case ?f of (Some e, st3) \<Rightarrow> (Inl e, st3)
                               | (None, st3) \<Rightarrow> search_only env u v k st3)"
    if "fallback_needed env u v k st \<and> \<not> isRetry"
    using that retrieveChunks_fallback [of env u v k st] by simp
  have counts: "downloads (snd ?r) =
       downloads st + (if fallback_needed env u v k st \<and> \<not> isRetry then 1 else 0) \<and>
     searches (snd ?r) =
       searches st + (if table_opened env u v st then 1 else 0) +
         (if fallback_needed env u v k st \<and> \<not> isRetry \<and> fst ?f = None then 1 else 0)"
  proof (cases "fallback_needed env u v k st \<and> \<not> isRetry")
    case False
    with local [OF False] show ?thesis
      by (auto simp: downloads_search_only searches_search_only)
  next
    case True
    then have pre: "isPreIndexedDoc env u" and ls: "local_search env u v k st = Inr []"
      by (simp_all add: fallback_needed_def)
    obtain e st3 where F: "?f = (e, st3)"
      by (cases ?f) auto
    from fallback_result_effects [OF pre, of v k st] F
    have d3: "downloads st3 = downloads st + 1"
      and s3: "searches st3 = searches st + (if table_opened env u v st then 1 else 0)"
      by simp_all
    show ?thesis
    proof (cases e)
      case None
      from retry_answers [OF ls F] have "table_opened env u v st3"
        by simp
      with remote [OF True] F None True d3 s3 show ?thesis
        by (simp add: downloads_search_only searches_search_only)
    next
      case (Some err)
      with remote [OF True] F True d3 s3 show ?thesis
        by simp
    qed
  qed
  have indexed: "hasIndexedDoc env st u \<longrightarrow> downloads (snd ?r) = downloads st"
    using counts by (auto simp: fallback_needed_def)
  have retry: "fallback_needed env u v k st \<and> \<not> isRetry \<and> fst ?f = None \<longrightarrow>
      (\<exists>docs. local_search env u v k (snd ?f) = Inr docs \<and>
              fst ?r = Inr (map chunk_of_row docs))"
  proof
    assume a: "fallback_needed env u v k st \<and> \<not> isRetry \<and> fst ?f = None"
    then have ls: "local_search env u v k st = Inr []"
      by (simp add: fallback_needed_def)
    obtain st3 where F: "?f = (None, st3)"
      using a by (cases ?f) auto
    from retry_answers [OF ls F] obtain docs where docs: "local_search env u v k st3 = Inr docs"
      by blast
    from remote F a have "?r = search_only env u v k st3"
      by simp
    with docs F show "\<exists>docs. local_search env u v k (snd ?f) = Inr docs \<and>
              fst ?r = Inr (map chunk_of_row docs)"
      by (simp add: search_only_def)
  qed
  have later: "fallback_needed env u v k st \<and> \<not> isRetry \<and> fst ?f = None \<and>
      bundle_startUrl env u st = Some u \<longrightarrow>
      hasIndexedDoc env (snd ?r) u \<and>
      (\<forall>v' k' r'. downloads (snd (retrieveChunks env u v' k' r' (snd ?r))) = downloads (snd ?r))"
  proof
    assume a: "fallback_needed env u v k st \<and> \<not> isRetry \<and> fst ?f = None \<and>
      bundle_startUrl env u st = Some u"
    then obtain d where d: "preIndexedDocs env u = Some d"
      by (auto simp: fallback_needed_def isPreIndexedDoc_def)
    obtain st3 where F: "?f = (None, st3)"
      using a by (cases ?f) auto
    have prov: "getEmbeddingsProvider env True (after_search env u v k st) =
        getEmbeddingsProvider env True st"
      by (simp add: getEmbeddingsProvider_def after_search_fields)
    from F d have F': "fetchAndAddPreIndexedDocEmbeddings env (title d)
        (after_search env u v k st) = (None, st3)"
      by (simp add: fallback_result_def)
    from a d have "parseUrl env (bundle_url (downloadFromS3 env
        (provider_id (getEmbeddingsProvider env True (after_search env u v k st))) (title d))) =
        Some u"
      by (simp add: bundle_startUrl_def prov)
    from fetchAndAdd_ok_row [OF F' this] have row3: "hasIndexedDoc env st3 u" .
    from remote F a have r: "?r = search_only env u v k st3"
      by simp
    have "sqliteDocs (snd (search_only env u v k st3)) = sqliteDocs st3"
      by (simp add: search_only_def after_search_fields split: sum.splits)
    with row3 r have row4: "hasIndexedDoc env (snd ?r) u"
      by (simp add: hasIndexedDoc_def)
    have zero: "\<forall>v' k' r'. downloads (snd (retrieveChunks env u v' k' r' (snd ?r))) =
        downloads (snd ?r)"
    proof (intro allI)
      fix v' k' r'
      from row4 have "\<not> fallback_needed env u v' k' (snd ?r)"
        by (simp add: fallback_needed_def)
      then show "downloads (snd (retrieveChunks env u v' k' r' (snd ?r))) = downloads (snd ?r)"
        by (simp add: retrieveChunks_local downloads_search_only)
    qed
    from row4 zero
    show "hasIndexedDoc env (snd ?r) u \<and>
      (\<forall>v' k' r'. downloads (snd (retrieveChunks env u v' k' r' (snd ?r))) = downloads (snd ?r))"
      by simp
  qed
  from counts indexed remote retry local later show ?thesis
    by blast
qed

theorem retrieveChunks_remote_fallback_witness:
  "fallback_needed catalog_env (startUrl catalog_config) [7] 5 example_state \<and>
   fst (fallback_result catalog_env (startUrl catalog_config) [7] 5 example_state) = None \<and>
   bundle_startUrl catalog_env (startUrl catalog_config) example_state =
     Some (startUrl catalog_config) \<and>
   downloads example_state = 0 \<and> searches example_state = 0 \<and>
   fst (retrieveChunks catalog_env (startUrl catalog_config) [7] 5 False example_state) =
     Inr [\<lparr>digest = ''/p'', filepath = ''/p'', startLine = 0, endLine = 1, chunk_index = 0,
           content = ''P'', otherMetadata_title = Some ''Pre''\<rparr>] \<and>
   downloads (snd (retrieveChunks catalog_env (startUrl catalog_config) [7] 5 False
     example_state)) = 1 \<and>
   searches (snd (retrieveChunks catalog_env (startUrl catalog_config) [7] 5 False
     example_state)) = 2 \<and>
   hasIndexedDoc catalog_env (snd (retrieveChunks catalog_env (startUrl catalog_config) [7] 5
     False example_state)) (startUrl catalog_config) \<and>
   downloads (snd (retrieveChunks catalog_env (startUrl catalog_config) [7] 5 False
     (snd (retrieveChunks catalog_env (startUrl catalog_config) [7] 5 False
        example_state)))) = 1"
proof -
  let ?u = "startUrl catalog_config"
  let ?r = "retrieveChunks catalog_env ?u [7] 5 False example_state"
  have fb: "fallback_needed catalog_env ?u [7] 5 example_state"
    by (simp add: fallback_needed_def local_search_def search_table_def
        catalog_env_def example_env_def example_state_def catalog_config_def eval_defs)
  have op: "table_opened catalog_env ?u [7] example_state"
    by (simp add: table_opened_def catalog_env_def example_env_def example_state_def
        catalog_config_def eval_defs)
  have ok: "fst (fallback_result catalog_env ?u [7] 5 example_state) = None"
    by (simp add: fallback_result_def after_search_def fetchAndAddPreIndexedDocEmbeddings_def
        catalog_env_def example_env_def example_state_def catalog_config_def example_chunk_def
        eval_defs)
  have bu: "bundle_startUrl catalog_env ?u example_state = Some ?u"
    by (simp add: bundle_startUrl_def catalog_env_def example_env_def catalog_config_def
        example_parseUrl_example)
  have d0: "downloads example_state = 0"
    by (simp add: downloads_def example_state_def)
  have s0: "searches example_state = 0"
    by (simp add: searches_def example_state_def)
  note T = retrieveChunks_remote_fallback [of catalog_env ?u "[7]" 5 False example_state]
  from T have "downloads (snd ?r) =
      downloads example_state +
        (if fallback_needed catalog_env ?u [7] 5 example_state \<and> \<not> False then 1 else 0)"
    by blast
  with fb d0 have d1: "downloads (snd ?r) = 1"
    by simp
  from T have "searches (snd ?r) =
      searches example_state + (if table_opened catalog_env ?u [7] example_state then 1 else 0) +
        (if fallback_needed catalog_env ?u [7] 5 example_state \<and> \<not> False \<and>
            fst (fallback_result catalog_env ?u [7] 5 example_state) = None
         then 1 else 0)"
    by blast
  with fb ok op s0 have s2: "searches (snd ?r) = 2"
    by simp
  from T fb ok bu
  have row: "hasIndexedDoc catalog_env (snd ?r) ?u"
    and later: "\<forall>v' k' r'. downloads (snd (retrieveChunks catalog_env ?u v' k' r' (snd ?r))) =
      downloads (snd ?r)"
    by blast+
  from later d1
  have d2: "downloads (snd (retrieveChunks catalog_env ?u [7] 5 False (snd ?r))) = 1"
    by simp
  have res: "fst ?r =
     Inr [\<lparr>digest = ''/p'', filepath = ''/p'', startLine = 0, endLine = 1, chunk_index = 0,
           content = ''P'', otherMetadata_title = Some ''Pre''\<rparr>]"
    by (simp add: catalog_retrieve)
  from fb ok bu d0 s0 res d1 s2 row d2 show ?thesis
    by blast
qed

text \<open>
  Claim C3 as stated fails: it says that a retrieval after the bundle was persisted
  downloads nothing, and that a retrieval whose result is empty returns the empty
  sequence rather than raising. The catalog names the site \<open>https://pre.example\<close>, and
  the bundle gives the same text as its URL, which \<open>new URL(...).toString()\<close> prints as
  \<open>https://pre.example/\<close>. The first retrieval downloads the bundle, persists it under
  \<open>https://pre.example/\<close> and returns the empty sequence. The second retrieval finds
  neither a row of the vector table nor a row of the relational table for
  \<open>https://pre.example\<close>, downloads the bundle again, and ends with the exception of the
  UNIQUE constraint.
\<close>

theorem retrieveChunks_downloads_again:
  "preIndexedDocs bare_catalog_env ''https://pre.example'' = Some bare_catalog_config \<and>
   retrieveChunks bare_catalog_env ''https://pre.example'' [7] 5 False example_state =
     (Inr [], bare_after_first) \<and>
   downloads bare_after_first = 1 \<and>
   sqliteDocs bare_after_first =
     [\<lparr>doc_title = ''Pre'', doc_startUrl = ''https://pre.example/'',
       doc_favicon = favicon_data\<rparr>] \<and>
   fst (retrieveChunks bare_catalog_env ''https://pre.example'' [7] 5 False bare_after_first) =
     Inl (SqliteUniqueConstraint ''https://pre.example/'') \<and>
   downloads (snd (retrieveChunks bare_catalog_env ''https://pre.example'' [7] 5 False
     bare_after_first)) = 2"
  by (simp add: bare_first_retrieve bare_second_retrieve)
     (simp add: bare_catalog_env_def bare_after_first_def downloads_def)


end
